theory Spec2Isabelle
  imports Main "HOL-Library.Word" "HOL-Library.Sublist"
begin

section \<open>JavaScript values used by the download service\<close>

subsection \<open>Strings\<close>

text \<open>
  A JavaScript string is a sequence of 16-bit code units. The query is passed to
  \<^verbatim>\<open>encodeURIComponent\<close>, which raises on an unpaired surrogate, so the code units
  are kept as they are. \<open>lit\<close> writes an ASCII literal of the source.
\<close>

type_synonym cu = "16 word"
type_synonym jsstring = "cu list"

definition lit :: "string \<Rightarrow> jsstring" where
  "lit s = map of_char s"

text \<open>
  Case folding of one code unit. Every pattern of \<^verbatim>\<open>movieService.ts\<close> is ASCII and has
  the flag \<^verbatim>\<open>i\<close> without \<^verbatim>\<open>u\<close>: there a code unit from 128 on is never folded into an
  ASCII one, so a subject code unit matches a pattern character exactly when both are
  the same ASCII character up to case. \<^verbatim>\<open>toUpperCase\<close> is applied by the source only to
  text matched by these patterns and to ASCII literals, where it is this map.
\<close>

definition canonicalize :: "cu \<Rightarrow> cu" where
  "canonicalize c = (if 0x61 \<le> c \<and> c \<le> 0x7A then c - 0x20 else c)"

definition toUpperCase :: "jsstring \<Rightarrow> jsstring" where
  "toUpperCase s = map canonicalize s"

definition is_digit :: "cu \<Rightarrow> bool" where
  "is_digit c = (0x30 \<le> c \<and> c \<le> 0x39)"

text \<open>White space and line terminators, as \<^verbatim>\<open>trim\<close> and \<^verbatim>\<open>parseInt\<close> strip them.\<close>

definition is_space :: "cu \<Rightarrow> bool" where
  "is_space c = (c \<in> {0x09, 0x0A, 0x0B, 0x0C, 0x0D, 0x20, 0xA0, 0x1680, 0x2028, 0x2029,
                        0x202F, 0x205F, 0x3000, 0xFEFF} \<or> (0x2000 \<le> c \<and> c \<le> 0x200A))"

definition trim :: "jsstring \<Rightarrow> jsstring" where
  "trim s = rev (dropWhile is_space (rev (dropWhile is_space s)))"

text \<open>\<^verbatim>\<open>id.replace('tt', '')\<close>: the first occurrence of the two letters is removed.\<close>

fun replace_tt :: "jsstring \<Rightarrow> jsstring" where
  "replace_tt (a # b # cs) =
     (if a = 0x74 \<and> b = 0x74 then cs else a # replace_tt (b # cs))"
| "replace_tt cs = cs"

subsection \<open>Regular expressions of the source\<close>

text \<open>
  The patterns are alternations of literals with the flag \<^verbatim>\<open>i\<close>. \<open>match_alt\<close> is
  \<^verbatim>\<open>name.match(/p1|p2|.../i)?.[0]\<close>: the leftmost position where an alternative matches,
  the alternatives tried in their order, and the matched text as the subject has it.
\<close>

fun starts_with_ci :: "jsstring \<Rightarrow> jsstring \<Rightarrow> bool" where
  "starts_with_ci [] s = True"
| "starts_with_ci (p # ps) [] = False"
| "starts_with_ci (p # ps) (c # cs) =
     (canonicalize c = canonicalize p \<and> starts_with_ci ps cs)"

fun alt_at :: "jsstring list \<Rightarrow> jsstring \<Rightarrow> jsstring option" where
  "alt_at [] s = None"
| "alt_at (p # ps) s = (if starts_with_ci p s then Some (take (length p) s) else alt_at ps s)"

fun match_alt :: "jsstring list \<Rightarrow> jsstring \<Rightarrow> jsstring option" where
  "match_alt ps [] = alt_at ps []"
| "match_alt ps (c # cs) =
     (case alt_at ps (c # cs) of Some m \<Rightarrow> Some m | None \<Rightarrow> match_alt ps cs)"

definition regex_test :: "jsstring list \<Rightarrow> jsstring \<Rightarrow> bool" where
  "regex_test ps s = (match_alt ps s \<noteq> None)"

text \<open>
  \<^verbatim>\<open>cleanQuery.match(/S(\d+)E(\d+)/i)\<close>: the two captured digit runs of the leftmost
  match. Digits and the letter E are disjoint, so the greedy runs never backtrack:
  at a position the pattern matches iff an S, a longest non-empty run of digits, an E
  and a digit follow, and the second group is the longest run there.
\<close>

definition season_episode_at :: "jsstring \<Rightarrow> (jsstring \<times> jsstring) option" where
  "season_episode_at str =
     (case str of
        [] \<Rightarrow> None
      | c # cs \<Rightarrow>
          if canonicalize c \<noteq> 0x53 then None
          else let s = takeWhile is_digit cs in
            if s = [] then None
            else (case dropWhile is_digit cs of
                    [] \<Rightarrow> None
                  | x # rest \<Rightarrow>
                      if canonicalize x \<noteq> 0x45 then None
                      else let e = takeWhile is_digit rest in
                        if e = [] then None else Some (s, e)))"

fun seasonEpisodeMatch :: "jsstring \<Rightarrow> (jsstring \<times> jsstring) option" where
  "seasonEpisodeMatch [] = None"
| "seasonEpisodeMatch (c # cs) =
     (case season_episode_at (c # cs) of
        Some m \<Rightarrow> Some m
      | None \<Rightarrow> seasonEpisodeMatch cs)"

subsection \<open>Numbers\<close>

datatype exn = URIError | TypeError | SyntaxError | NetworkError

text \<open>
  What the service holds where it expects a number. The seeder counts and byte counts
  are integers, or \<^verbatim>\<open>NaN\<close> where \<^verbatim>\<open>parseInt\<close> finds no digit. Three adapters copy the
  counts from the JSON body as they are, and a JSON body can hold an object whose
  conversion to a number raises \<^verbatim>\<open>TypeError\<close> because neither its \<^verbatim>\<open>valueOf\<close> nor its
  \<^verbatim>\<open>toString\<close> can be called (\<^verbatim>\<open>{"toString": 1}\<close>): this is \<open>Opaque\<close>. Every other JSON
  value converts without raising and stands here as the number it converts to.

  The arithmetic is the exact one of the integers. It is the arithmetic of the program
  for integers of magnitude below \<open>2 ^ 53\<close>: each is a binary64 value, its quotient by a
  power of two is exact, and \<^verbatim>\<open>toFixed\<close> rounds the exact value of its operand. From
  \<open>2 ^ 53\<close> on \<^verbatim>\<open>parseInt\<close> returns the nearest binary64 value, and from \<open>10 ^ 21\<close> on
  \<^verbatim>\<open>toFixed\<close> writes an exponent: there the functions below are not the program, and
  every property of a size label is stated for byte counts below \<open>2 ^ 53\<close>.
\<close>

datatype jsnum = NaN | Num int | Opaque

fun js_gt :: "jsnum \<Rightarrow> jsnum \<Rightarrow> exn + bool" where
  "js_gt Opaque b = Inl TypeError"
| "js_gt a Opaque = Inl TypeError"
| "js_gt (Num a) (Num b) = Inr (a > b)"
| "js_gt a b = Inr False"

fun js_sub :: "jsnum \<Rightarrow> jsnum \<Rightarrow> exn + jsnum" where
  "js_sub Opaque b = Inl TypeError"
| "js_sub a Opaque = Inl TypeError"
| "js_sub (Num a) (Num b) = Inr (Num (a - b))"
| "js_sub a b = Inr NaN"

fun js_mul :: "jsnum \<Rightarrow> jsnum \<Rightarrow> exn + jsnum" where
  "js_mul Opaque b = Inl TypeError"
| "js_mul a Opaque = Inl TypeError"
| "js_mul (Num a) (Num b) = Inr (Num (a * b))"
| "js_mul a b = Inr NaN"

definition radix_digit :: "int \<Rightarrow> cu \<Rightarrow> int option" where
  "radix_digit r c =
     (let v = (if 0x30 \<le> c \<and> c \<le> 0x39 then Some (uint c - 48)
               else if 0x61 \<le> c \<and> c \<le> 0x7A then Some (uint c - 87)
               else if 0x41 \<le> c \<and> c \<le> 0x5A then Some (uint c - 55)
               else None)
      in case v of None \<Rightarrow> None | Some d \<Rightarrow> if d < r then Some d else None)"

fun parse_digits :: "int \<Rightarrow> int \<Rightarrow> jsstring \<Rightarrow> int" where
  "parse_digits r acc [] = acc"
| "parse_digits r acc (c # cs) =
     (case radix_digit r c of
        Some d \<Rightarrow> parse_digits r (acc * r + d) cs
      | None \<Rightarrow> acc)"

text \<open>
  \<^verbatim>\<open>parseInt(input)\<close> with no radix: leading white space is skipped, a sign is read, the
  prefix \<^verbatim>\<open>0x\<close> selects radix 16, and the longest run of digits is the value; with no
  digit the result is \<^verbatim>\<open>NaN\<close>.
\<close>

definition parseInt :: "jsstring \<Rightarrow> jsnum" where
  "parseInt input =
     (let s0 = dropWhile is_space input;
          neg = (case s0 of [] \<Rightarrow> False | c # _ \<Rightarrow> c = 0x2D);
          s1 = (case s0 of [] \<Rightarrow> [] | c # cs \<Rightarrow> if c = 0x2B \<or> c = 0x2D then cs else s0);
          hex = (case s1 of a # b # _ \<Rightarrow> a = 0x30 \<and> (b = 0x78 \<or> b = 0x58) | _ \<Rightarrow> False);
          r = (if hex then 16 else 10);
          s2 = (if hex then drop 2 s1 else s1)
      in case s2 of
           [] \<Rightarrow> NaN
         | c # _ \<Rightarrow>
             if radix_digit r c = None then NaN
             else Num ((if neg then - 1 else 1) * parse_digits r 0 s2))"

text \<open>The decimal digits of a non-negative integer, most significant first.\<close>

function decimal :: "int \<Rightarrow> jsstring" where
  "decimal n =
     (if n < 10 then [of_int (48 + n)]
      else decimal (n div 10) @ [of_int (48 + n mod 10)])"
  by pat_completeness auto
termination
  by (relation "measure nat") auto

declare decimal.simps [simp del]

text \<open>
  \<^verbatim>\<open>(v / d).toFixed(f)\<close> for a divisor \<open>d\<close> that is a power of two. \<^verbatim>\<open>toFixed\<close> takes the
  integer \<open>n\<close> for which \<open>n / 10 ^ f\<close> is closest to the operand, the larger one of two,
  writes its digits, pads them with zeros to \<open>f + 1\<close> digits and puts the point before
  the last \<open>f\<close>; a negative operand is formatted as its absolute value after a minus
  sign, and \<^verbatim>\<open>NaN\<close> as the text NaN. The division raises on a value that does not
  convert to a number.
\<close>

definition fixed_digits :: "nat \<Rightarrow> int \<Rightarrow> jsstring" where
  "fixed_digits f n =
     (let m = decimal n
      in if f = 0 then m
         else let m0 = (if length m \<le> f then replicate (f + 1 - length m) 0x30 @ m else m);
                  k = length m0
              in take (k - f) m0 @ [0x2E] @ drop (k - f) m0)"

definition div_toFixed :: "jsnum \<Rightarrow> int \<Rightarrow> nat \<Rightarrow> exn + jsstring" where
  "div_toFixed v d f =
     (case v of
        Opaque \<Rightarrow> Inl TypeError
      | NaN \<Rightarrow> Inr (lit ''NaN'')
      | Num i \<Rightarrow>
          let x = \<bar>i\<bar>;
              n = (2 * x * 10 ^ f + d) div (2 * d)
          in Inr ((if i < 0 then [0x2D] else []) @ fixed_digits f n))"

definition followed_by :: "exn + jsstring \<Rightarrow> jsstring \<Rightarrow> exn + jsstring" where
  "followed_by r s = (case r of Inl e \<Rightarrow> Inl e | Inr t \<Rightarrow> Inr (t @ s))"

subsection \<open>\<^verbatim>\<open>encodeURIComponent\<close>\<close>

definition unreserved :: "cu \<Rightarrow> bool" where
  "unreserved c =
     ((0x41 \<le> c \<and> c \<le> 0x5A) \<or> (0x61 \<le> c \<and> c \<le> 0x7A) \<or> (0x30 \<le> c \<and> c \<le> 0x39)
      \<or> c \<in> {0x2D, 0x5F, 0x2E, 0x21, 0x7E, 0x2A, 0x27, 0x28, 0x29})"

definition hex_digit :: "int \<Rightarrow> cu" where
  "hex_digit n = (if n < 10 then of_int (48 + n) else of_int (55 + n))"

definition percent :: "int \<Rightarrow> jsstring" where
  "percent b = [0x25, hex_digit (b div 16), hex_digit (b mod 16)]"

definition utf8 :: "int \<Rightarrow> int list" where
  "utf8 cp =
     (if cp < 0x80 then [cp]
      else if cp < 0x800 then [0xC0 + cp div 64, 0x80 + cp mod 64]
      else if cp < 0x10000 then
        [0xE0 + cp div 4096, 0x80 + (cp div 64) mod 64, 0x80 + cp mod 64]
      else [0xF0 + cp div 262144, 0x80 + (cp div 4096) mod 64,
            0x80 + (cp div 64) mod 64, 0x80 + cp mod 64])"

definition escape :: "int \<Rightarrow> jsstring" where
  "escape cp = concat (map percent (utf8 cp))"

definition prepend :: "jsstring \<Rightarrow> exn + jsstring \<Rightarrow> exn + jsstring" where
  "prepend s r = (case r of Inl e \<Rightarrow> Inl e | Inr t \<Rightarrow> Inr (s @ t))"

definition is_high_surrogate :: "cu \<Rightarrow> bool" where
  "is_high_surrogate c = (0xD800 \<le> c \<and> c \<le> 0xDBFF)"

definition is_low_surrogate :: "cu \<Rightarrow> bool" where
  "is_low_surrogate c = (0xDC00 \<le> c \<and> c \<le> 0xDFFF)"

text \<open>
  An unreserved character is copied, any other code point is written as the escaped
  octets of its UTF-8 form. A low surrogate with no high one before it, and a high
  surrogate with no low one after it, raise \<^verbatim>\<open>URIError\<close>.
\<close>

fun encodeURIComponent :: "jsstring \<Rightarrow> exn + jsstring" where
  "encodeURIComponent [] = Inr []"
| "encodeURIComponent [c] =
     (if unreserved c then Inr [c]
      else if is_low_surrogate c \<or> is_high_surrogate c then Inl URIError
      else Inr (escape (uint c)))"
| "encodeURIComponent (c # d # ds) =
     (if unreserved c then prepend [c] (encodeURIComponent (d # ds))
      else if is_low_surrogate c then Inl URIError
      else if is_high_surrogate c then
        (if is_low_surrogate d
         then prepend (escape ((uint c - 0xD800) * 0x400 + (uint d - 0xDC00) + 0x10000))
                (encodeURIComponent ds)
         else Inl URIError)
      else prepend (escape (uint c)) (encodeURIComponent (d # ds)))"

section \<open>Data model\<close>

text \<open>
  Modelled from the spec: the interface \<^verbatim>\<open>Torrent\<close> of \<^verbatim>\<open>types.ts\<close>, which is not among
  the sources. Its fields are the ones \<^verbatim>\<open>fetchMovieDownloads\<close> writes: the locator, the
  identity hash, the quality and encoding labels, the seeder and leecher counts and the
  two display labels. The field \<^verbatim>\<open>size\<close> is \<open>size_label\<close> here.
\<close>

record torrent =
  url :: jsstring
  hash :: jsstring
  quality :: jsstring
  type :: jsstring
  seeds :: jsnum
  peers :: jsnum
  size_label :: jsstring
  date_uploaded :: jsstring

datatype media = Movie | TV

text \<open>
  The responses of the four indexers, with the fields the adapters read. The entries
  of the movie catalogue have the fields of \<open>torrent\<close> themselves. A body that is not
  JSON, and a body on which an adapter raises because a field it dereferences is not
  there, are errors of the request (see \<open>world\<close>); the one dereference kept in the
  model is \<^verbatim>\<open>item.swarm.seeders\<close>.
\<close>

record yts_movie =
  yts_torrents :: "torrent list option"

record yts_data =
  yts_movies :: "yts_movie list option"

record yts_response =
  yts_data :: "yts_data option"

record eztv_entry =
  eztv_title :: jsstring
  eztv_magnet_url :: jsstring
  eztv_hash :: jsstring
  eztv_seeds :: jsnum
  eztv_peers :: jsnum
  eztv_size_bytes :: jsnum
  eztv_date_released_unix :: jsnum

record eztv_response =
  eztv_torrents :: "eztv_entry list option"

record apibay_entry =
  apibay_id :: jsstring
  apibay_name :: jsstring
  apibay_info_hash :: jsstring
  apibay_seeders :: jsstring
  apibay_leechers :: jsstring
  apibay_size :: jsstring

record solid_swarm =
  swarm_seeders :: jsnum
  swarm_leechers :: jsnum

record solid_entry =
  solid_title :: jsstring
  solid_magnet :: jsstring
  solid_infoHash :: jsstring
  solid_swarm :: "solid_swarm option"
  solid_size :: jsnum

record solid_response =
  solid_results :: "solid_entry list option"

text \<open>
  What is outside the program: for every indexer, the outcome of \<^verbatim>\<open>fetch(proxyUrl)\<close>
  followed by \<^verbatim>\<open>response.json()\<close>, as a function of the address requested (a rejected
  request, a body that does not parse or does not have the shape read are \<open>Inl\<close>); and
  \<^verbatim>\<open>new Date(ms).toDateString()\<close>, which depends on the time zone of the browser.
\<close>

record world =
  yts_api :: "jsstring \<Rightarrow> exn + yts_response"
  eztv_api :: "jsstring \<Rightarrow> exn + eztv_response"
  apibay_api :: "jsstring \<Rightarrow> exn + apibay_entry list option"
  solid_api :: "jsstring \<Rightarrow> exn + solid_response"
  toDateString :: "jsnum \<Rightarrow> jsstring"

section \<open>\<^verbatim>\<open>parseTorrentName\<close>\<close>

record meta =
  meta_quality :: jsstring
  meta_type :: jsstring

definition quality_tokens :: "jsstring list" where
  "quality_tokens = [lit ''2160p'', lit ''4k'', lit ''1080p'', lit ''720p'', lit ''480p'']"

definition type_tokens :: "jsstring list" where
  "type_tokens = [lit ''bluray'', lit ''web-dl'', lit ''webrip'', lit ''hdrip'', lit ''dvdrip'']"

definition parseTorrentName :: "jsstring \<Rightarrow> meta" where
  "parseTorrentName name =
     (let quality0 = (case match_alt quality_tokens name of
                        Some m \<Rightarrow> m | None \<Rightarrow> lit ''Unknown'');
          type0 = (case match_alt type_tokens name of
                     Some m \<Rightarrow> m | None \<Rightarrow> lit ''WEBRip'');
          type1 = (if regex_test [lit ''x265'', lit ''hevc''] name then type0 @ lit '' (HEVC)''
                   else if regex_test [lit ''x264''] name then type0 @ lit '' (x264)''
                   else type0)
      in \<lparr> meta_quality = toUpperCase quality0, meta_type = toUpperCase type1 \<rparr>)"

definition cleanImdbId :: "jsstring option \<Rightarrow> jsstring option" where
  "cleanImdbId ident =
     (case ident of None \<Rightarrow> None | Some i \<Rightarrow> if i = [] then None else Some (replace_tt i))"

section \<open>The four adapters\<close>

text \<open>
  An adapter is an \<^verbatim>\<open>async\<close> function whose body is one \<^verbatim>\<open>try\<close> block followed by
  \<^verbatim>\<open>return []\<close>. The block is \<open>_try\<close> below: \<open>Inl\<close> when it raises, \<open>Inr\<close> with the list
  it returns (the empty list when it falls through to \<^verbatim>\<open>return []\<close>), and beside it the
  addresses passed to \<^verbatim>\<open>fetch\<close>. All four calls of \<^verbatim>\<open>fetch\<close> happen before the first
  response is awaited, in the order the adapters are started.
\<close>

type_synonym 'a effect = "(exn + 'a) \<times> jsstring list"

definition proxied :: "jsstring \<Rightarrow> exn + jsstring" where
  "proxied target = prepend (lit ''https://corsproxy.io/?url='') (encodeURIComponent target)"

fun traverse :: "('a \<Rightarrow> exn + 'b) \<Rightarrow> 'a list \<Rightarrow> exn + 'b list" where
  "traverse f [] = Inr []"
| "traverse f (x # xs) =
     (case f x of
        Inl e \<Rightarrow> Inl e
      | Inr y \<Rightarrow> (case traverse f xs of Inl e \<Rightarrow> Inl e | Inr ys \<Rightarrow> Inr (y # ys)))"

definition recover :: "torrent list effect \<Rightarrow> torrent list effect" where
  "recover p = (case fst p of Inl e \<Rightarrow> (Inr [], snd p) | Inr ts \<Rightarrow> (Inr ts, snd p))"

subsection \<open>Source 1: the movie catalogue\<close>

definition first_movie_torrents :: "yts_response \<Rightarrow> torrent list option" where
  "first_movie_torrents d =
     (case yts_data d of
        None \<Rightarrow> None
      | Some dd \<Rightarrow>
          (case yts_movies dd of
             None \<Rightarrow> None
           | Some [] \<Rightarrow> None
           | Some (m # _) \<Rightarrow> yts_torrents m))"

definition yts_item :: "torrent \<Rightarrow> torrent" where
  "yts_item t =
     \<lparr> url = url t, hash = hash t, quality = quality t, type = type t, seeds = seeds t,
       peers = peers t, size_label = size_label t, date_uploaded = date_uploaded t \<rparr>"

definition ytsUrl :: "jsstring \<Rightarrow> jsstring option \<Rightarrow> jsstring" where
  "ytsUrl encodedQuery imdbId =
     (let byQuery = lit ''https://yts.mx/api/v2/list_movies.json?query_term='' @ encodedQuery
                      @ lit ''&limit=10''
      in case imdbId of
           None \<Rightarrow> byQuery
         | Some i \<Rightarrow>
             if i = [] then byQuery
             else lit ''https://yts.mx/api/v2/list_movies.json?query_term='' @ i
                    @ lit ''&limit=1'')"

definition yts_try :: "world \<Rightarrow> jsstring \<Rightarrow> jsstring option \<Rightarrow> torrent list effect" where
  "yts_try w encodedQuery imdbId =
     (case proxied (ytsUrl encodedQuery imdbId) of
        Inl e \<Rightarrow> (Inl e, [])
      | Inr proxyUrl \<Rightarrow>
          (case yts_api w proxyUrl of
             Inl e \<Rightarrow> (Inl e, [proxyUrl])
           | Inr d \<Rightarrow>
               (case first_movie_torrents d of
                  None \<Rightarrow> (Inr [], [proxyUrl])
                | Some ts \<Rightarrow> (Inr (map yts_item ts), [proxyUrl]))))"

subsection \<open>Source 2: the episode catalogue\<close>

definition episode_pattern :: "jsstring \<Rightarrow> jsstring \<Rightarrow> jsstring" where
  "episode_pattern s e = lit ''S'' @ s @ lit ''E'' @ e"

definition eztv_results :: "jsstring \<Rightarrow> eztv_entry list \<Rightarrow> eztv_entry list" where
  "eztv_results cleanQuery torrents =
     (case seasonEpisodeMatch cleanQuery of
        None \<Rightarrow> torrents
      | Some (s, e) \<Rightarrow>
          filter (\<lambda>t. regex_test [episode_pattern s e] (eztv_title t)) torrents)"

definition eztv_size :: "jsnum \<Rightarrow> exn + jsstring" where
  "eztv_size size_bytes = followed_by (div_toFixed size_bytes 1048576 0) (lit '' MB'')"

definition eztv_item :: "world \<Rightarrow> eztv_entry \<Rightarrow> exn + torrent" where
  "eztv_item w t =
     (let meta = parseTorrentName (eztv_title t)
      in case eztv_size (eztv_size_bytes t) of
           Inl e \<Rightarrow> Inl e
         | Inr sizeStr \<Rightarrow>
             (case js_mul (eztv_date_released_unix t) (Num 1000) of
                Inl e \<Rightarrow> Inl e
              | Inr ms \<Rightarrow>
                  Inr \<lparr> url = eztv_magnet_url t,
                        hash = eztv_hash t,
                        quality = (if meta_quality meta = lit ''UNKNOWN'' then lit ''HD''
                                   else meta_quality meta),
                        type = meta_type meta,
                        seeds = eztv_seeds t,
                        peers = eztv_peers t,
                        size_label = sizeStr,
                        date_uploaded = toDateString w ms \<rparr>))"

definition eztv_try :: "world \<Rightarrow> jsstring \<Rightarrow> jsstring \<Rightarrow> torrent list effect" where
  "eztv_try w cleanQuery numericId =
     (case proxied (lit ''https://eztv.re/api/get-torrents?imdb_id='' @ numericId
                      @ lit ''&limit=50'') of
        Inl e \<Rightarrow> (Inl e, [])
      | Inr proxyUrl \<Rightarrow>
          (case eztv_api w proxyUrl of
             Inl e \<Rightarrow> (Inl e, [proxyUrl])
           | Inr d \<Rightarrow>
               (case eztv_torrents d of
                  None \<Rightarrow> (Inr [], [proxyUrl])
                | Some ts \<Rightarrow>
                    (traverse (eztv_item w) (take 8 (eztv_results cleanQuery ts)),
                     [proxyUrl]))))"

subsection \<open>Source 3: the first general search\<close>

definition apibay_sizeStr :: "jsnum \<Rightarrow> exn + jsstring" where
  "apibay_sizeStr sizeBytes =
     (case js_gt sizeBytes (Num 1073741824) of
        Inl e \<Rightarrow> Inl e
      | Inr large \<Rightarrow>
          if large then followed_by (div_toFixed sizeBytes 1073741824 2) (lit '' GB'')
          else followed_by (div_toFixed sizeBytes 1048576 2) (lit '' MB''))"

definition apibay_item :: "apibay_entry \<Rightarrow> exn + torrent" where
  "apibay_item item =
     (let meta = parseTorrentName (apibay_name item);
          sizeBytes = parseInt (apibay_size item)
      in case apibay_sizeStr sizeBytes of
           Inl e \<Rightarrow> Inl e
         | Inr sizeStr \<Rightarrow>
             (case encodeURIComponent (apibay_name item) of
                Inl e \<Rightarrow> Inl e
              | Inr dn \<Rightarrow>
                  Inr \<lparr> url = lit ''magnet:?xt=urn:btih:'' @ apibay_info_hash item
                              @ lit ''&dn='' @ dn
                              @ lit ''&tr=udp://tracker.coppersurfer.tk:6969/announce''
                              @ lit ''&tr=udp://tracker.openbittorrent.com:6969/announce'',
                        hash = apibay_info_hash item,
                        quality = (if meta_quality meta = lit ''UNKNOWN'' then lit ''HD''
                                   else meta_quality meta),
                        type = meta_type meta,
                        seeds = parseInt (apibay_seeders item),
                        peers = parseInt (apibay_leechers item),
                        size_label = sizeStr,
                        date_uploaded = lit ''Recent'' \<rparr>))"

definition apibay_try :: "world \<Rightarrow> jsstring \<Rightarrow> torrent list effect" where
  "apibay_try w encodedQuery =
     (case proxied (lit ''https://apibay.org/q.php?q='' @ encodedQuery) of
        Inl e \<Rightarrow> (Inl e, [])
      | Inr proxyUrl \<Rightarrow>
          (case apibay_api w proxyUrl of
             Inl e \<Rightarrow> (Inl e, [proxyUrl])
           | Inr None \<Rightarrow> (Inr [], [proxyUrl])
           | Inr (Some []) \<Rightarrow> (Inr [], [proxyUrl])
           | Inr (Some (r # rs)) \<Rightarrow>
               if apibay_id r \<noteq> lit ''0''
               then (traverse apibay_item (take 8 (r # rs)), [proxyUrl])
               else (Inr [], [proxyUrl])))"

subsection \<open>Source 4: the second general search\<close>

definition solid_item :: "solid_entry \<Rightarrow> exn + torrent" where
  "solid_item item =
     (let meta = parseTorrentName (solid_title item)
      in case solid_swarm item of
           None \<Rightarrow> Inl TypeError
         | Some swarm \<Rightarrow>
             (case followed_by (div_toFixed (solid_size item) 1073741824 2) (lit '' GB'') of
                Inl e \<Rightarrow> Inl e
              | Inr sizeStr \<Rightarrow>
                  Inr \<lparr> url = solid_magnet item,
                        hash = solid_infoHash item,
                        quality = (if meta_quality meta = lit ''UNKNOWN'' then lit ''HD''
                                   else meta_quality meta),
                        type = meta_type meta,
                        seeds = swarm_seeders swarm,
                        peers = swarm_leechers swarm,
                        size_label = sizeStr,
                        date_uploaded = lit ''Recent'' \<rparr>))"

definition solid_try :: "world \<Rightarrow> jsstring \<Rightarrow> torrent list effect" where
  "solid_try w encodedQuery =
     (case proxied (lit ''https://solidtorrents.to/api/v1/search?q='' @ encodedQuery
                      @ lit ''&category=Video'') of
        Inl e \<Rightarrow> (Inl e, [])
      | Inr proxyUrl \<Rightarrow>
          (case solid_api w proxyUrl of
             Inl e \<Rightarrow> (Inl e, [proxyUrl])
           | Inr d \<Rightarrow>
               (case solid_results d of
                  None \<Rightarrow> (Inr [], [proxyUrl])
                | Some [] \<Rightarrow> (Inr [], [proxyUrl])
                | Some rs \<Rightarrow> (traverse solid_item (take 8 rs), [proxyUrl]))))"

section \<open>Aggregation\<close>

subsection \<open>\<^verbatim>\<open>Map\<close> and \<^verbatim>\<open>Array.prototype.sort\<close>\<close>

text \<open>
  A \<^verbatim>\<open>Map\<close> keeps its entries in the order their keys were first set; setting a key
  that is present replaces the value where it stands.
\<close>

fun Map_set :: "('k \<times> 'v) list \<Rightarrow> 'k \<Rightarrow> 'v \<Rightarrow> ('k \<times> 'v) list" where
  "Map_set [] k v = [(k, v)]"
| "Map_set ((k', v') # m) k v =
     (if k' = k then (k, v) # m else (k', v') # Map_set m k v)"

definition new_Map :: "('k \<times> 'v) list \<Rightarrow> ('k \<times> 'v) list" where
  "new_Map entries = foldl (\<lambda>m (k, v). Map_set m k v) [] entries"

definition Map_values :: "('k \<times> 'v) list \<Rightarrow> 'v list" where
  "Map_values m = map snd m"

text \<open>
  \<^verbatim>\<open>filter(callback)\<close> calls the callback on every element in order; when a call raises,
  the filter raises.
\<close>

fun Array_filter :: "('a \<Rightarrow> exn + bool) \<Rightarrow> 'a list \<Rightarrow> exn + 'a list" where
  "Array_filter callback [] = Inr []"
| "Array_filter callback (x # xs) =
     (case callback x of
        Inl e \<Rightarrow> Inl e
      | Inr keep \<Rightarrow>
          (case Array_filter callback xs of
             Inl e \<Rightarrow> Inl e
           | Inr ys \<Rightarrow> Inr (if keep then x # ys else ys)))"

text \<open>
  \<^verbatim>\<open>sort(comparefn)\<close> is stable, takes a \<^verbatim>\<open>NaN\<close> of the comparator as zero, and puts
  \<open>y\<close> before \<open>x\<close> when \<open>comparefn(x, y)\<close> is positive. For a comparator that is a
  consistent order this fixes the result, which is the one of insertion from the right.
  When a call of the comparator raises, the sort raises.
\<close>

definition sortCompare :: "jsnum \<Rightarrow> int" where
  "sortCompare v = (case v of Num i \<Rightarrow> i | _ \<Rightarrow> 0)"

fun sort_insert :: "('a \<Rightarrow> 'a \<Rightarrow> exn + jsnum) \<Rightarrow> 'a \<Rightarrow> 'a list \<Rightarrow> exn + 'a list" where
  "sort_insert comparefn x [] = Inr [x]"
| "sort_insert comparefn x (y # ys) =
     (case comparefn x y of
        Inl e \<Rightarrow> Inl e
      | Inr v \<Rightarrow>
          if sortCompare v > 0
          then (case sort_insert comparefn x ys of
                  Inl e \<Rightarrow> Inl e
                | Inr zs \<Rightarrow> Inr (y # zs))
          else Inr (x # y # ys))"

fun Array_sort :: "('a \<Rightarrow> 'a \<Rightarrow> exn + jsnum) \<Rightarrow> 'a list \<Rightarrow> exn + 'a list" where
  "Array_sort comparefn [] = Inr []"
| "Array_sort comparefn (x # xs) =
     (case Array_sort comparefn xs of
        Inl e \<Rightarrow> Inl e
      | Inr ys \<Rightarrow> sort_insert comparefn x ys)"

subsection \<open>\<^verbatim>\<open>fetchMovieDownloads\<close>\<close>

datatype 'a settled = Fulfilled 'a | Rejected exn

definition allSettled :: "'a effect list \<Rightarrow> 'a settled list" where
  "allSettled promises =
     map (\<lambda>p. case fst p of Inl e \<Rightarrow> Rejected e | Inr v \<Rightarrow> Fulfilled v) promises"

definition collect :: "torrent list settled list \<Rightarrow> torrent list" where
  "collect results =
     foldl (\<lambda>allTorrents result.
              case result of
                Fulfilled v \<Rightarrow> allTorrents @ v
              | Rejected e \<Rightarrow> allTorrents) [] results"

definition uniqueTorrents :: "torrent list \<Rightarrow> torrent list" where
  "uniqueTorrents allTorrents =
     Map_values (new_Map (map (\<lambda>item. (hash item, item)) allTorrents))"

text \<open>The two callbacks of line 448: \<^verbatim>\<open>t => t.seeds > 0\<close> and \<^verbatim>\<open>(a, b) => b.seeds - a.seeds\<close>.\<close>

definition has_seeds :: "torrent \<Rightarrow> exn + bool" where
  "has_seeds t = js_gt (seeds t) (Num 0)"

definition more_seeds :: "torrent \<Rightarrow> torrent \<Rightarrow> exn + jsnum" where
  "more_seeds a b = js_sub (seeds b) (seeds a)"

definition truthy :: "jsstring option \<Rightarrow> bool" where
  "truthy s = (case s of None \<Rightarrow> False | Some t \<Rightarrow> t \<noteq> [])"

text \<open>The promises pushed, in their order, for a query that has been encoded.\<close>

definition promises ::
  "world \<Rightarrow> jsstring \<Rightarrow> jsstring \<Rightarrow> media \<Rightarrow> jsstring option \<Rightarrow> torrent list effect list"
where
  "promises w cleanQuery encodedQuery kind imdbId =
     (if kind = Movie then [recover (yts_try w encodedQuery imdbId)] else [])
     @ (if kind = TV \<and> truthy imdbId
        then (case cleanImdbId imdbId of
                None \<Rightarrow> []
              | Some numericId \<Rightarrow>
                  if numericId = [] then []
                  else [recover (eztv_try w cleanQuery numericId)])
        else [])
     @ [recover (apibay_try w encodedQuery)]
     @ [recover (solid_try w encodedQuery)]"

text \<open>
  The result is the settled value of the promise \<^verbatim>\<open>fetchMovieDownloads\<close> returns
  (\<open>Inl\<close> when it rejects) and the addresses requested from the network, in order.
  The encoding of the query, the filter and the sort are outside every \<^verbatim>\<open>try\<close> block:
  what they raise rejects the promise.
\<close>

definition fetchMovieDownloads ::
  "world \<Rightarrow> jsstring \<Rightarrow> media \<Rightarrow> jsstring option \<Rightarrow> torrent list effect"
where
  "fetchMovieDownloads w query kind imdbId =
     (if query = [] then (Inr [], [])
      else
        let cleanQuery = trim query in
        case encodeURIComponent cleanQuery of
          Inl e \<Rightarrow> (Inl e, [])
        | Inr encodedQuery \<Rightarrow>
            let ps = promises w cleanQuery encodedQuery kind imdbId;
                results = allSettled ps;
                allTorrents = collect results
            in case Array_filter has_seeds (uniqueTorrents allTorrents) of
                 Inl e \<Rightarrow> (Inl e, concat (map snd ps))
               | Inr seeded \<Rightarrow>
                   (case Array_sort more_seeds seeded of
                      Inl e \<Rightarrow> (Inl e, concat (map snd ps))
                    | Inr ranked \<Rightarrow> (Inr ranked, concat (map snd ps))))"

section \<open>Notions used to state the properties\<close>

text \<open>
  The definitions of this section are not code of the service: they name values the
  properties speak about.
\<close>

text \<open>The seeder count as the comparator of the sort reads it.\<close>

definition seed_val :: "torrent \<Rightarrow> int" where
  "seed_val t = sortCompare (seeds t)"

text \<open>
  The candidates that the filter of line 448 keeps, in their order: the ones whose seeder
  count compares greater than zero.
\<close>

definition alive :: "torrent list \<Rightarrow> torrent list" where
  "alive ts = filter (\<lambda>t. js_gt (seeds t) (Num 0) = Inr True) ts"

text \<open>The stable sort in descending order of the seeder count.\<close>

definition by_seeds :: "torrent list \<Rightarrow> torrent list" where
  "by_seeds ts = sort_key (\<lambda>t. - seed_val t) ts"

text \<open>
  The value of the variable \<^verbatim>\<open>allTorrents\<close> when the deduplication starts: the lists of the
  fulfilled promises, concatenated in the order the adapters were started.
\<close>

definition allTorrents_of :: "world \<Rightarrow> jsstring \<Rightarrow> media \<Rightarrow> jsstring option \<Rightarrow> torrent list" where
  "allTorrents_of w query kind imdbId =
     (if query = [] then []
      else case encodeURIComponent (trim query) of
             Inl e \<Rightarrow> []
           | Inr encodedQuery \<Rightarrow>
               collect (allSettled (promises w (trim query) encodedQuery kind imdbId)))"

text \<open>The entries of a \<^verbatim>\<open>Map\<close> after more pairs have been set, from any starting map.\<close>

definition Map_of_entries :: "('k \<times> 'v) list \<Rightarrow> ('k \<times> 'v) list \<Rightarrow> ('k \<times> 'v) list" where
  "Map_of_entries m entries = foldl (\<lambda>m (k, v). Map_set m k v) m entries"

text \<open>
  What the \<^verbatim>\<open>try\<close> block of an adapter adds to the aggregate: its list, or nothing when
  it raised.
\<close>

definition contributed :: "torrent list effect \<Rightarrow> torrent list" where
  "contributed p = (case fst p of Inl e \<Rightarrow> [] | Inr ts \<Rightarrow> ts)"

text \<open>The \<^verbatim>\<open>try\<close> blocks of the adapters that are started, in their order.\<close>

definition attempts ::
  "world \<Rightarrow> jsstring \<Rightarrow> jsstring \<Rightarrow> media \<Rightarrow> jsstring option \<Rightarrow> torrent list effect list"
where
  "attempts w cleanQuery encodedQuery kind imdbId =
     (if kind = Movie then [yts_try w encodedQuery imdbId] else [])
     @ (if kind = TV \<and> truthy imdbId
        then (case cleanImdbId imdbId of
                None \<Rightarrow> []
              | Some numericId \<Rightarrow>
                  if numericId = [] then []
                  else [eztv_try w cleanQuery numericId])
        else [])
     @ [apibay_try w encodedQuery]
     @ [solid_try w encodedQuery]"



text \<open>
  The quotient \<open>b / d\<close> written with two decimals: the nearest multiple of one hundredth,
  the larger one of two, as integer part, point and two digits.
\<close>

definition two_decimals :: "int \<Rightarrow> int \<Rightarrow> jsstring" where
  "two_decimals b d =
     (let n = (200 * b + d) div (2 * d)
      in decimal (n div 100) @ [0x2E, of_int (48 + n div 10 mod 10), of_int (48 + n mod 10)])"

section \<open>Concrete responses\<close>

text \<open>
  States of the network. In \<open>demo_world\<close> the episode catalogue and the second
  general search answer and the other two indexers fail; in \<open>demo_movie_world\<close> the movie
  catalogue and the first general search answer and the second one sends an entry without
  its swarm; in \<open>dead_world\<close> every request fails; in \<open>opaque_world\<close> the movie
  catalogue sends a seeder count that does not convert to a number; in \<open>cap_world\<close> the
  episode catalogue sends eight entries of another season before the one asked for.
\<close>

definition demo_e1 :: eztv_entry where
  "demo_e1 = \<lparr> eztv_title = lit ''Show.S01E02.HDTV'', eztv_magnet_url = lit ''magnet:?xt=urn:btih:aa'',
      eztv_hash = lit ''aa'', eztv_seeds = Num 5, eztv_peers = Num 1,
      eztv_size_bytes = Num 1572864, eztv_date_released_unix = Num 0 \<rparr>"

definition demo_e2 :: eztv_entry where
  "demo_e2 = \<lparr> eztv_title = lit ''Show.S02E02.HDTV'', eztv_magnet_url = lit ''magnet:?xt=urn:btih:bb'',
      eztv_hash = lit ''bb'', eztv_seeds = Num 7, eztv_peers = Num 1,
      eztv_size_bytes = Num 1048576, eztv_date_released_unix = Num 0 \<rparr>"

definition demo_e3 :: eztv_entry where
  "demo_e3 = \<lparr> eztv_title = lit ''show.s01e02.720p.x264'', eztv_magnet_url = lit ''magnet:?xt=urn:btih:cc'',
      eztv_hash = lit ''cc'', eztv_seeds = Num 9, eztv_peers = Num 2,
      eztv_size_bytes = Num 1048576, eztv_date_released_unix = Num 0 \<rparr>"

definition demo_s1 :: solid_entry where
  "demo_s1 = \<lparr> solid_title = lit ''Show 1080p BluRay x265'', solid_magnet = lit ''magnet:?xt=urn:btih:aa'',
      solid_infoHash = lit ''aa'',
      solid_swarm = Some \<lparr> swarm_seeders = Num 12, swarm_leechers = Num 3 \<rparr>,
      solid_size = Num 2147483648 \<rparr>"

definition demo_s2 :: solid_entry where
  "demo_s2 = \<lparr> solid_title = lit ''Show'', solid_magnet = lit ''magnet:?xt=urn:btih:dd'',
      solid_infoHash = lit ''dd'',
      solid_swarm = Some \<lparr> swarm_seeders = Num 0, swarm_leechers = Num 3 \<rparr>,
      solid_size = Num 1073741824 \<rparr>"

definition demo_world :: world where
  "demo_world = \<lparr> yts_api = (\<lambda>u. Inl NetworkError),
      eztv_api = (\<lambda>u. Inr \<lparr> eztv_torrents = Some [demo_e1, demo_e2, demo_e3] \<rparr>),
      apibay_api = (\<lambda>u. Inl SyntaxError),
      solid_api = (\<lambda>u. Inr \<lparr> solid_results = Some [demo_s1, demo_s2] \<rparr>),
      toDateString = (\<lambda>n. lit ''Thu Jan 01 1970'') \<rparr>"

definition demo_t1 :: torrent where
  "demo_t1 = \<lparr>url = lit ''magnet:?xt=urn:btih:aa'', hash = lit ''aa'', quality = lit ''1080P'',
          type = lit ''BLURAY (HEVC)'', seeds = Num 12, peers = Num 3,
          size_label = lit ''2.00 GB'', date_uploaded = lit ''Recent''\<rparr>"

definition demo_t2 :: torrent where
  "demo_t2 = \<lparr>url = lit ''magnet:?xt=urn:btih:cc'', hash = lit ''cc'', quality = lit ''720P'',
          type = lit ''WEBRIP (X264)'', seeds = Num 9, peers = Num 2,
          size_label = lit ''1 MB'', date_uploaded = lit ''Thu Jan 01 1970''\<rparr>"

definition demo_t3 :: torrent where
  "demo_t3 = \<lparr>url = lit ''magnet:?xt=urn:btih:aa'', hash = lit ''aa'', quality = lit ''HD'',
          type = lit ''WEBRIP'', seeds = Num 5, peers = Num 1,
          size_label = lit ''2 MB'', date_uploaded = lit ''Thu Jan 01 1970''\<rparr>"

definition demo_t4 :: torrent where
  "demo_t4 = \<lparr>url = lit ''magnet:?xt=urn:btih:dd'', hash = lit ''dd'', quality = lit ''HD'',
          type = lit ''WEBRIP'', seeds = Num 0, peers = Num 3,
          size_label = lit ''1.00 GB'', date_uploaded = lit ''Recent''\<rparr>"

definition demo_a1 :: apibay_entry where
  "demo_a1 = \<lparr> apibay_id = lit ''7'', apibay_name = lit ''Film dvdrip'',
      apibay_info_hash = lit ''ee'', apibay_seeders = lit ''4'', apibay_leechers = lit ''x'',
      apibay_size = lit ''1073741824'' \<rparr>"

definition demo_t5 :: torrent where
  "demo_t5 = \<lparr>url = lit ''magnet:?xt=urn:btih:ee&dn=Film%20dvdrip&tr=udp://tracker.coppersurfer.tk:6969/announce&tr=udp://tracker.openbittorrent.com:6969/announce'',
          hash = lit ''ee'', quality = lit ''HD'',
          type = lit ''DVDRIP'', seeds = Num 4, peers = NaN,
          size_label = lit ''1024.00 MB'', date_uploaded = lit ''Recent''\<rparr>"

definition demo_t6 :: torrent where
  "demo_t6 = \<lparr>url = lit ''https://yts.mx/torrent/download/ff'', hash = lit ''ff'',
          quality = lit ''UNKNOWN'', type = lit ''web'', seeds = Num 3, peers = Num 0,
          size_label = lit ''1.2 GB'', date_uploaded = lit ''2024-01-01''\<rparr>"

definition demo_s3 :: solid_entry where
  "demo_s3 = \<lparr> solid_title = lit ''Film'', solid_magnet = lit ''magnet:?xt=urn:btih:gg'',
      solid_infoHash = lit ''gg'', solid_swarm = None, solid_size = Num 1 \<rparr>"

definition demo_movie_world :: world where
  "demo_movie_world = \<lparr>
      yts_api = (\<lambda>u. Inr \<lparr> yts_data = Some \<lparr> yts_movies =
                    Some [\<lparr> yts_torrents = Some [demo_t6] \<rparr>] \<rparr> \<rparr>),
      eztv_api = (\<lambda>u. Inl NetworkError),
      apibay_api = (\<lambda>u. Inr (Some [demo_a1])),
      solid_api = (\<lambda>u. Inr \<lparr> solid_results = Some [demo_s3] \<rparr>),
      toDateString = (\<lambda>n. lit ''Thu Jan 01 1970'') \<rparr>"

definition dead_world :: world where
  "dead_world = \<lparr> yts_api = (\<lambda>u. Inl NetworkError), eztv_api = (\<lambda>u. Inl NetworkError),
      apibay_api = (\<lambda>u. Inl SyntaxError), solid_api = (\<lambda>u. Inl TypeError),
      toDateString = (\<lambda>n. []) \<rparr>"

definition demo_t7 :: torrent where
  "demo_t7 = \<lparr>url = lit ''https://yts.mx/torrent/download/hh'', hash = lit ''hh'',
          quality = lit ''720p'', type = lit ''web'', seeds = Opaque, peers = Num 0,
          size_label = lit ''1.2 GB'', date_uploaded = lit ''2024-01-01''\<rparr>"

definition opaque_world :: world where
  "opaque_world = \<lparr>
      yts_api = (\<lambda>u. Inr \<lparr> yts_data = Some \<lparr> yts_movies =
                    Some [\<lparr> yts_torrents = Some [demo_t7] \<rparr>] \<rparr> \<rparr>),
      eztv_api = (\<lambda>u. Inl NetworkError),
      apibay_api = (\<lambda>u. Inr (Some [demo_a1])),
      solid_api = (\<lambda>u. Inl NetworkError),
      toDateString = (\<lambda>n. lit ''Thu Jan 01 1970'') \<rparr>"


section \<open>Lemmas\<close>

subsection \<open>Sorting by seeders\<close>

lemma alive_seeds: "t \<in> set (alive ts) \<Longrightarrow> \<exists>n. seeds t = Num n \<and> 0 < n"
  unfolding alive_def by (cases "seeds t") auto

lemma alive_numeric: "\<forall>t\<in>set (alive ts). \<exists>n. seeds t = Num n"
  using alive_seeds by blast

lemma has_seeds_cases:
  "has_seeds t = (if seeds t = Opaque then Inl TypeError
                  else Inr (js_gt (seeds t) (Num 0) = Inr True))"
  unfolding has_seeds_def by (cases "seeds t") auto

lemma Array_filter_has_seeds:
  "Array_filter has_seeds ts
   = (if \<exists>t\<in>set ts. seeds t = Opaque then Inl TypeError else Inr (alive ts))"
proof (induction ts)
  case Nil
  show ?case by (simp add: alive_def)
next
  case (Cons t ts)
  show ?case
  proof (cases "seeds t = Opaque")
    case True
    then show ?thesis by (simp add: has_seeds_cases)
  next
    case False
    then show ?thesis using Cons.IH by (simp add: has_seeds_cases alive_def)
  qed
qed

lemma sort_insert_numeric:
  assumes "\<exists>n. seeds x = Num n" and "\<forall>t\<in>set ys. \<exists>n. seeds t = Num n"
  shows "sort_insert more_seeds x ys = Inr (insort_key (\<lambda>t. - seed_val t) x ys)"
  using assms
proof (induction ys)
  case Nil
  then show ?case by simp
next
  case (Cons y ys)
  obtain a where a: "seeds x = Num a" using Cons.prems(1) by blast
  obtain b where b: "seeds y = Num b" using Cons.prems(2) by auto
  have ih: "sort_insert more_seeds x ys = Inr (insort_key (\<lambda>t. - seed_val t) x ys)"
    using Cons by simp
  have c: "more_seeds x y = Inr (Num (b - a))" by (simp add: more_seeds_def a b)
  show ?case using a b ih c by (simp add: seed_val_def sortCompare_def)
qed

lemma Array_sort_numeric:
  assumes "\<forall>t\<in>set xs. \<exists>n. seeds t = Num n"
  shows "Array_sort more_seeds xs = Inr (by_seeds xs)"
  using assms
proof (induction xs)
  case Nil
  then show ?case by (simp add: by_seeds_def)
next
  case (Cons x xs)
  have ih: "Array_sort more_seeds xs = Inr (by_seeds xs)" using Cons by simp
  have "\<forall>t\<in>set (by_seeds xs). \<exists>n. seeds t = Num n"
    using Cons.prems by (simp add: by_seeds_def)
  then have "sort_insert more_seeds x (by_seeds xs)
             = Inr (insort_key (\<lambda>t. - seed_val t) x (by_seeds xs))"
    using Cons.prems by (intro sort_insert_numeric) simp_all
  then show ?case using ih by (simp add: by_seeds_def)
qed

lemma set_by_seeds: "set (by_seeds ts) = set ts"
  by (simp add: by_seeds_def)

lemma aggregate_outcome:
  "(case Array_filter has_seeds ts of
      Inl e \<Rightarrow> (Inl e, rs)
    | Inr seeded \<Rightarrow>
        (case Array_sort more_seeds seeded of
           Inl e \<Rightarrow> (Inl e, rs)
         | Inr ranked \<Rightarrow> (Inr ranked, rs)))
   = (if \<exists>t\<in>set ts. seeds t = Opaque then (Inl TypeError, rs)
      else (Inr (by_seeds (alive ts)), rs))"
  by (simp add: Array_filter_has_seeds Array_sort_numeric [OF alive_numeric])

lemma fetch_outcome:
  "fst (fetchMovieDownloads w query kind imdbId)
   = (if query = [] then Inr []
      else case encodeURIComponent (trim query) of
             Inl e \<Rightarrow> Inl e
           | Inr encodedQuery \<Rightarrow>
               if \<exists>t\<in>set (uniqueTorrents (allTorrents_of w query kind imdbId)).
                    seeds t = Opaque
               then Inl TypeError
               else Inr (by_seeds (alive (uniqueTorrents (allTorrents_of w query kind imdbId)))))"
proof (cases "query = []")
  case True
  then show ?thesis by (simp add: fetchMovieDownloads_def)
next
  case False
  show ?thesis
  proof (cases "encodeURIComponent (trim query)")
    case (Inl e)
    then show ?thesis using False by (simp add: fetchMovieDownloads_def)
  next
    case (Inr encodedQuery)
    have a: "allTorrents_of w query kind imdbId
             = collect (allSettled (promises w (trim query) encodedQuery kind imdbId))"
      using False Inr by (simp add: allTorrents_of_def)
    show ?thesis
      using False Inr unfolding fetchMovieDownloads_def Let_def a
      by (simp add: aggregate_outcome)
  qed
qed

lemma aggregate_Nil: "by_seeds (alive (uniqueTorrents [])) = []"
  by (simp add: by_seeds_def alive_def uniqueTorrents_def new_Map_def Map_values_def)

lemma fetch_result:
  assumes "fst (fetchMovieDownloads w query kind imdbId) = Inr out"
  shows "out = by_seeds (alive (uniqueTorrents (allTorrents_of w query kind imdbId)))"
proof (cases "query = []")
  case True
  then show ?thesis using assms aggregate_Nil
    by (simp add: fetchMovieDownloads_def allTorrents_of_def)
next
  case False
  then show ?thesis using assms unfolding fetch_outcome
    by (cases "encodeURIComponent (trim query)") (auto split: if_splits)
qed

lemma by_seeds_alive_sorted:
  "sorted (map (\<lambda>t. - seed_val t) (by_seeds (alive ts)))"
  by (simp add: by_seeds_def)

lemma by_seeds_alive_stable:
  "filter (\<lambda>t. seeds t = n) (by_seeds (alive ts)) = filter (\<lambda>t. seeds t = n) (alive ts)"
proof (cases n)
  case (Num a)
  have eq: "\<And>t. t \<in> set (alive ts) \<Longrightarrow> (seeds t = Num a) = (- seed_val t = - a)"
    using alive_seeds by (fastforce simp: seed_val_def sortCompare_def)
  have "filter (\<lambda>t. seeds t = Num a) (by_seeds (alive ts))
        = filter (\<lambda>t. - seed_val t = - a) (by_seeds (alive ts))"
    by (rule filter_cong) (auto simp: set_by_seeds eq)
  also have "\<dots> = filter (\<lambda>t. - seed_val t = - a) (alive ts)"
    by (simp only: by_seeds_def sort_key_stable)
  also have "\<dots> = filter (\<lambda>t. seeds t = Num a) (alive ts)"
    by (rule filter_cong) (auto simp: eq)
  finally show ?thesis using Num by simp
next
  case NaN
  have "\<forall>t\<in>set (alive ts). seeds t \<noteq> NaN" using alive_seeds by fastforce
  then have "filter (\<lambda>t. seeds t = NaN) (by_seeds (alive ts)) = []"
    "filter (\<lambda>t. seeds t = NaN) (alive ts) = []"
    by (auto simp: filter_empty_conv set_by_seeds)
  then show ?thesis using NaN by simp
next
  case Opaque
  have "\<forall>t\<in>set (alive ts). seeds t \<noteq> Opaque" using alive_seeds by fastforce
  then have "filter (\<lambda>t. seeds t = Opaque) (by_seeds (alive ts)) = []"
    "filter (\<lambda>t. seeds t = Opaque) (alive ts) = []"
    by (auto simp: filter_empty_conv set_by_seeds)
  then show ?thesis using Opaque by simp
qed

subsection \<open>The map of hashes\<close>

lemma Map_set_key_set: "fst ` set (Map_set m k v) = insert k (fst ` set m)"
proof (induction m)
  case Nil
  show ?case by simp
next
  case (Cons p m)
  obtain a b where p: "p = (a, b)" by (cases p)
  show ?case using Cons by (cases "a = k") (simp_all add: p insert_commute)
qed

lemma Map_set_distinct:
  "distinct (map fst m) \<Longrightarrow> distinct (map fst (Map_set m k v))"
proof (induction m)
  case Nil
  show ?case by simp
next
  case (Cons p m)
  obtain a b where p: "p = (a, b)" by (cases p)
  show ?case
  proof (cases "a = k")
    case True
    then show ?thesis using Cons.prems by (simp add: p)
  next
    case False
    have "a \<notin> fst ` set (Map_set m k v)"
      using Cons.prems False by (simp add: p Map_set_key_set)
    then show ?thesis using Cons False by (simp add: p)
  qed
qed

lemma Map_set_entries: "set (Map_set m k v) \<subseteq> insert (k, v) (set m)"
proof (induction m)
  case Nil
  show ?case by simp
next
  case (Cons p m)
  obtain a b where p: "p = (a, b)" by (cases p)
  show ?case using Cons by (cases "a = k") (auto simp: p)
qed

lemma Map_of_entries_Cons:
  "Map_of_entries m ((k, v) # es) = Map_of_entries (Map_set m k v) es"
  by (simp add: Map_of_entries_def)

lemma Map_of_entries_distinct:
  "distinct (map fst m) \<Longrightarrow> distinct (map fst (Map_of_entries m es))"
proof (induction es arbitrary: m)
  case Nil
  then show ?case by (simp add: Map_of_entries_def)
next
  case (Cons e es)
  obtain k v where e: "e = (k, v)" by (cases e)
  show ?case unfolding e Map_of_entries_Cons
    by (rule Cons.IH) (rule Map_set_distinct [OF Cons.prems])
qed

lemma Map_of_entries_key_set:
  "fst ` set (Map_of_entries m es) = fst ` set m \<union> fst ` set es"
proof (induction es arbitrary: m)
  case Nil
  then show ?case by (simp add: Map_of_entries_def)
next
  case (Cons e es)
  obtain k v where e: "e = (k, v)" by (cases e)
  show ?case unfolding e Map_of_entries_Cons Cons.IH Map_set_key_set by simp
qed

lemma Map_of_entries_subset:
  "set (Map_of_entries m es) \<subseteq> set m \<union> set es"
proof (induction es arbitrary: m)
  case Nil
  then show ?case by (simp add: Map_of_entries_def)
next
  case (Cons e es)
  obtain k v where e: "e = (k, v)" by (cases e)
  have "set (Map_of_entries (Map_set m k v) es) \<subseteq> set (Map_set m k v) \<union> set es"
    by (rule Cons.IH)
  also have "\<dots> \<subseteq> insert (k, v) (set m) \<union> set es"
    using Map_set_entries [of m k v] by blast
  finally show ?case unfolding e Map_of_entries_Cons by auto
qed

lemma new_Map_keyed:
  assumes "p \<in> set (new_Map (map (\<lambda>item. (h item, item)) ts))"
  shows "h (snd p) = fst p \<and> snd p \<in> set ts"
proof -
  have "p \<in> set [] \<union> set (map (\<lambda>item. (h item, item)) ts)"
    using assms Map_of_entries_subset [of "[]" "map (\<lambda>item. (h item, item)) ts"]
    unfolding new_Map_def Map_of_entries_def by blast
  then show ?thesis by auto
qed

lemma uniqueTorrents_hashes:
  "map hash (uniqueTorrents ts) = map fst (new_Map (map (\<lambda>item. (hash item, item)) ts))"
  unfolding uniqueTorrents_def Map_values_def
  by (simp add: new_Map_keyed [where h = hash])

lemma uniqueTorrents_distinct: "distinct (map hash (uniqueTorrents ts))"
  unfolding uniqueTorrents_hashes new_Map_def
  using Map_of_entries_distinct [of "[]" "map (\<lambda>item. (hash item, item)) ts"]
  by (simp add: Map_of_entries_def)

lemma uniqueTorrents_hash_set: "hash ` set (uniqueTorrents ts) = hash ` set ts"
proof -
  have "hash ` set (uniqueTorrents ts) = set (map hash (uniqueTorrents ts))" by simp
  also have "\<dots> = fst ` set (Map_of_entries [] (map (\<lambda>item. (hash item, item)) ts))"
    unfolding uniqueTorrents_hashes new_Map_def Map_of_entries_def by simp
  also have "\<dots> = hash ` set ts"
    unfolding Map_of_entries_key_set by (simp add: image_image)
  finally show ?thesis .
qed

lemma uniqueTorrents_subset: "set (uniqueTorrents ts) \<subseteq> set ts"
  unfolding uniqueTorrents_def Map_values_def
  using new_Map_keyed [where h = hash and ts = ts] by auto

lemma distinct_hash_by_seeds_alive:
  assumes "distinct (map hash ts)"
  shows "distinct (map hash (by_seeds (alive ts)))"
proof -
  have "distinct (map hash (alive ts))"
    using assms unfolding alive_def by (rule distinct_map_filter)
  then have "distinct (alive ts) \<and> inj_on hash (set (alive ts))"
    by (simp add: distinct_map)
  then show ?thesis by (simp add: by_seeds_def distinct_map)
qed

subsection \<open>Settled adapters\<close>

lemma promises_attempts:
  "promises w cleanQuery encodedQuery kind imdbId
   = map recover (attempts w cleanQuery encodedQuery kind imdbId)"
  by (simp add: promises_def attempts_def split: option.splits)

lemma recover_contributed: "fst (recover p) = Inr (contributed p)"
  by (simp add: recover_def contributed_def split: sum.splits)

lemma collect_from:
  "foldl (\<lambda>allTorrents result.
            case result of Fulfilled v \<Rightarrow> allTorrents @ v | Rejected e \<Rightarrow> allTorrents)
     acc (allSettled (map recover as))
   = acc @ concat (map contributed as)"
proof (induction as arbitrary: acc)
  case Nil
  show ?case by (simp add: allSettled_def)
next
  case (Cons a as)
  have "allSettled (map recover (a # as))
        = Fulfilled (contributed a) # allSettled (map recover as)"
    by (simp add: allSettled_def recover_contributed)
  then show ?case using Cons.IH [of "acc @ contributed a"] by simp
qed

lemma collect_recovered:
  "collect (allSettled (map recover as)) = concat (map contributed as)"
  unfolding collect_def using collect_from [of "[]" as] by simp

lemma allTorrents_of_attempts:
  assumes "query \<noteq> []" and "encodeURIComponent (trim query) = Inr encodedQuery"
  shows "allTorrents_of w query kind imdbId
         = concat (map contributed (attempts w (trim query) encodedQuery kind imdbId))"
  using assms by (simp add: allTorrents_of_def promises_attempts collect_recovered)

lemma encodeURIComponent_error: "encodeURIComponent s = Inl e \<Longrightarrow> e = URIError"
proof (induction s rule: encodeURIComponent.induct)
  case 1
  then show ?case by simp
next
  case (2 c)
  then show ?case by (simp split: if_splits)
next
  case (3 c d ds)
  then show ?case by (auto simp: prepend_def split: if_splits sum.splits)
qed

lemma concat_contributed_failed:
  assumes "\<forall>p\<in>set as. \<exists>e. fst p = Inl e"
  shows "concat (map contributed as) = []"
  using assms by (induction as) (auto simp: contributed_def)

lemma fetch_attempts_outcome:
  assumes "query \<noteq> []" and "encodeURIComponent (trim query) = Inr encodedQuery"
  shows "fst (fetchMovieDownloads w query kind imdbId)
         = (if \<exists>t\<in>set (uniqueTorrents (concat (map contributed
                    (attempts w (trim query) encodedQuery kind imdbId)))). seeds t = Opaque
            then Inl TypeError
            else Inr (by_seeds (alive (uniqueTorrents (concat (map contributed
                    (attempts w (trim query) encodedQuery kind imdbId)))))))"
  unfolding fetch_outcome allTorrents_of_attempts [OF assms] using assms by simp

lemma traverse_Inr:
  "traverse f xs = Inr ys \<Longrightarrow> y \<in> set ys \<Longrightarrow> \<exists>x\<in>set xs. f x = Inr y"
proof (induction xs arbitrary: ys)
  case Nil
  then show ?case by simp
next
  case (Cons x xs)
  then show ?case by (auto split: sum.splits)
qed

lemma HD_not_UNKNOWN: "lit ''HD'' \<noteq> lit ''UNKNOWN''"
  by (simp add: lit_def)

lemma remapped_quality: "(if q = lit ''UNKNOWN'' then lit ''HD'' else q) \<noteq> lit ''UNKNOWN''"
  by (simp add: HD_not_UNKNOWN)

lemma eztv_item_quality:
  assumes "eztv_item w e = Inr t"
  shows "quality t \<noteq> lit ''UNKNOWN''"
proof -
  let ?q = "meta_quality (parseTorrentName (eztv_title e))"
  have "quality t = (if ?q = lit ''UNKNOWN'' then lit ''HD'' else ?q)"
    using assms by (auto simp: eztv_item_def Let_def split: sum.splits)
  then show ?thesis using remapped_quality [of ?q] by simp
qed

lemma apibay_item_quality:
  assumes "apibay_item item = Inr t"
  shows "quality t \<noteq> lit ''UNKNOWN''"
proof -
  let ?q = "meta_quality (parseTorrentName (apibay_name item))"
  have "quality t = (if ?q = lit ''UNKNOWN'' then lit ''HD'' else ?q)"
    using assms by (auto simp: apibay_item_def Let_def split: sum.splits)
  then show ?thesis using remapped_quality [of ?q] by simp
qed

lemma solid_item_quality:
  assumes "solid_item item = Inr t"
  shows "quality t \<noteq> lit ''UNKNOWN''"
proof -
  let ?q = "meta_quality (parseTorrentName (solid_title item))"
  have "quality t = (if ?q = lit ''UNKNOWN'' then lit ''HD'' else ?q)"
    using assms by (auto simp: solid_item_def Let_def split: option.splits sum.splits)
  then show ?thesis using remapped_quality [of ?q] by simp
qed

lemma eztv_try_quality:
  assumes "fst (eztv_try w cleanQuery numericId) = Inr out" and "t \<in> set out"
  shows "quality t \<noteq> lit ''UNKNOWN''"
proof -
  have "out = [] \<or> (\<exists>rs. traverse (eztv_item w) rs = Inr out)"
    using assms(1) unfolding eztv_try_def
    by (auto simp del: traverse.simps split: sum.splits option.splits)
  then show ?thesis using assms(2) traverse_Inr eztv_item_quality by fastforce
qed

lemma apibay_try_quality:
  assumes "fst (apibay_try w encodedQuery) = Inr out" and "t \<in> set out"
  shows "quality t \<noteq> lit ''UNKNOWN''"
proof -
  have "out = [] \<or> (\<exists>rs. traverse apibay_item rs = Inr out)"
    using assms(1) unfolding apibay_try_def
    by (auto simp del: traverse.simps take_Cons_numeral
          split: sum.splits option.splits list.splits if_splits)
  then show ?thesis using assms(2) traverse_Inr apibay_item_quality by fastforce
qed

lemma solid_try_quality:
  assumes "fst (solid_try w encodedQuery) = Inr out" and "t \<in> set out"
  shows "quality t \<noteq> lit ''UNKNOWN''"
proof -
  have "out = [] \<or> (\<exists>rs. traverse solid_item rs = Inr out)"
    using assms(1) unfolding solid_try_def
    by (auto simp del: traverse.simps take_Cons_numeral
          split: sum.splits option.splits list.splits)
  then show ?thesis using assms(2) traverse_Inr solid_item_quality by fastforce
qed

lemma contributed_mem:
  "t \<in> set (contributed p) \<Longrightarrow> \<exists>out. fst p = Inr out \<and> t \<in> set out"
  by (cases "fst p") (auto simp: contributed_def)

lemma fetch_members:
  assumes "fst (fetchMovieDownloads w query kind imdbId) = Inr out" and "t \<in> set out"
  shows "\<exists>encodedQuery. encodeURIComponent (trim query) = Inr encodedQuery
           \<and> (\<exists>p\<in>set (attempts w (trim query) encodedQuery kind imdbId). t \<in> set (contributed p))"
proof -
  have t: "t \<in> set (allTorrents_of w query kind imdbId)"
    using assms fetch_result [OF assms(1)] uniqueTorrents_subset
    by (auto simp: set_by_seeds alive_def)
  then have ne: "query \<noteq> []" by (auto simp: allTorrents_of_def)
  from t obtain encodedQuery where enc: "encodeURIComponent (trim query) = Inr encodedQuery"
    by (cases "encodeURIComponent (trim query)") (auto simp: allTorrents_of_def ne)
  show ?thesis using t allTorrents_of_attempts [OF ne enc] enc by auto
qed

lemma attempts_cases:
  assumes "p \<in> set (attempts w cleanQuery encodedQuery kind imdbId)"
  shows "(kind = Movie \<and> p = yts_try w encodedQuery imdbId)
         \<or> (\<exists>n. p = eztv_try w cleanQuery n)
         \<or> p = apibay_try w encodedQuery \<or> p = solid_try w encodedQuery"
proof (cases "cleanImdbId imdbId")
  case None
  have "attempts w cleanQuery encodedQuery kind imdbId
        = (if kind = Movie then [yts_try w encodedQuery imdbId] else [])
          @ [apibay_try w encodedQuery, solid_try w encodedQuery]"
    by (simp only: attempts_def None option.case if_cancel append_Nil append_Cons)
  then show ?thesis using assms by (auto split: if_splits)
next
  case (Some n)
  have "attempts w cleanQuery encodedQuery kind imdbId
        = (if kind = Movie then [yts_try w encodedQuery imdbId] else [])
          @ (if kind = TV \<and> truthy imdbId \<and> n \<noteq> [] then [eztv_try w cleanQuery n] else [])
          @ [apibay_try w encodedQuery, solid_try w encodedQuery]"
    by (simp only: attempts_def Some option.case) simp
  then show ?thesis using assms by (auto split: if_splits)
qed

subsection \<open>Matching a literal pattern\<close>

















subsection \<open>Upper case and size labels\<close>

lemma canonicalize_not_lower: "\<not> (0x61 \<le> canonicalize c \<and> canonicalize c \<le> 0x7A)"
  unfolding canonicalize_def by (auto simp: word_le_nat_alt unat_sub)

lemma toUpperCase_no_lower: "c \<in> set (toUpperCase s) \<Longrightarrow> \<not> (0x61 \<le> c \<and> c \<le> 0x7A)"
  unfolding toUpperCase_def using canonicalize_not_lower by auto

lemma toUpperCase_append: "toUpperCase (a @ b) = toUpperCase a @ toUpperCase b"
  by (simp add: toUpperCase_def)

lemma upper_suffixes:
  "toUpperCase (lit '' (HEVC)'') = lit '' (HEVC)''"
  "toUpperCase (lit '' (x264)'') = lit '' (X264)''"
  by (simp_all add: toUpperCase_def lit_def canonicalize_def)

lemma parseTorrentName_type:
  "\<exists>base. meta_type (parseTorrentName name)
     = toUpperCase base
       @ (if regex_test [lit ''x265'', lit ''hevc''] name then lit '' (HEVC)''
          else if regex_test [lit ''x264''] name then lit '' (X264)'' else [])"
proof -
  let ?base = "case match_alt type_tokens name of Some m \<Rightarrow> m | None \<Rightarrow> lit ''WEBRip''"
  have "meta_type (parseTorrentName name)
     = toUpperCase ?base
       @ (if regex_test [lit ''x265'', lit ''hevc''] name then lit '' (HEVC)''
          else if regex_test [lit ''x264''] name then lit '' (X264)'' else [])"
    unfolding parseTorrentName_def Let_def
    by (simp add: toUpperCase_append upper_suffixes del: match_alt.simps)
  then show ?thesis by blast
qed

lemma decimal_small: "n < 10 \<Longrightarrow> decimal n = [of_int (48 + n)]"
  by (subst decimal.simps) simp

lemma decimal_step: "10 \<le> n \<Longrightarrow> decimal n = decimal (n div 10) @ [of_int (48 + n mod 10)]"
  by (subst decimal.simps) simp

lemma decimal_nonempty: "decimal n \<noteq> []"
  by (subst decimal.simps) simp

lemma digit_of_int: "0 \<le> k \<Longrightarrow> k < 10 \<Longrightarrow> is_digit (of_int (48 + k))"
proof -
  assume a: "0 \<le> k" "k < 10"
  then have "k \<in> {0, 1, 2, 3, 4, 5, 6, 7, 8, 9}" by (simp) presburger
  then show ?thesis unfolding is_digit_def by (elim insertE emptyE) simp_all
qed

lemma decimal_digits: "0 \<le> n \<Longrightarrow> c \<in> set (decimal n) \<Longrightarrow> is_digit c"
proof (induction n arbitrary: c rule: decimal.induct)
  case (1 n)
  show ?case
  proof (cases "n < 10")
    case True
    have "is_digit (of_int (48 + n))" using True "1.prems"(1) by (intro digit_of_int)
    then show ?thesis using "1.prems"(2) by (simp add: decimal_small [OF True])
  next
    case False
    then have step: "decimal n = decimal (n div 10) @ [of_int (48 + n mod 10)]"
      by (simp add: decimal_step)
    have "is_digit (of_int (48 + n mod 10))" by (rule digit_of_int) simp_all
    moreover have "c \<in> set (decimal (n div 10)) \<Longrightarrow> is_digit c"
      using "1.IH" [OF False] "1.prems"(1) by simp
    ultimately show ?thesis using "1.prems"(2) unfolding step by auto
  qed
qed

lemma fixed_digits_two:
  assumes n0: "0 \<le> n"
  shows "fixed_digits 2 n
         = decimal (n div 100) @ [0x2E, of_int (48 + n div 10 mod 10), of_int (48 + n mod 10)]"
proof -
  consider "n < 10" | "10 \<le> n" "n < 100" | "100 \<le> n" by linarith
  then show ?thesis
  proof cases
    case 1
    then have "n div 100 = 0" "n div 10 mod 10 = 0" "n mod 10 = n" using n0 by simp_all
    then show ?thesis using 1
      by (simp add: fixed_digits_def decimal_small Let_def numeral_3_eq_3)
  next
    case 2
    then have d: "n div 100 = 0" "n div 10 mod 10 = n div 10" "n div 10 < 10" using n0 by simp_all
    have "decimal n = [of_int (48 + n div 10), of_int (48 + n mod 10)]"
      using 2 d by (simp add: decimal_step decimal_small)
    then show ?thesis using d by (simp add: fixed_digits_def decimal_small Let_def)
  next
    case 3
    then have "10 \<le> n" "10 \<le> n div 10" by simp_all
    moreover have "n div 10 div 10 = n div 100" using zdiv_zmult2_eq [of 10 n 10] by simp
    ultimately have m: "decimal n = decimal (n div 100)
                     @ [of_int (48 + n div 10 mod 10), of_int (48 + n mod 10)]"
      by (simp add: decimal_step [of n] decimal_step [of "n div 10"])
    have "length (decimal (n div 100)) > 0" using decimal_nonempty by simp
    then show ?thesis unfolding fixed_digits_def m by (simp add: Let_def)
  qed
qed

lemma div_toFixed_two:
  assumes "0 \<le> b" and "0 < d"
  shows "div_toFixed (Num b) d 2 = Inr (two_decimals b d)"
proof -
  have n: "(2 * \<bar>b\<bar> * 10 ^ 2 + d) div (2 * d) = (200 * b + d) div (2 * d)"
    using assms by simp
  have n0: "0 \<le> (200 * b + d) div (2 * d)"
    using assms by (simp add: pos_imp_zdiv_nonneg_iff)
  have "div_toFixed (Num b) d 2 = Inr (fixed_digits 2 ((200 * b + d) div (2 * d)))"
    unfolding div_toFixed_def Let_def n using assms by simp
  then show ?thesis unfolding fixed_digits_two [OF n0] two_decimals_def Let_def .
qed

lemma suffix_same_length:
  "length xs = length zs \<Longrightarrow> suffix xs (ys @ zs) \<longleftrightarrow> xs = zs"
  by (auto simp: suffix_def append_eq_append_conv)

lemma apibay_item_label:
  assumes "apibay_item item = Inr t"
  shows "apibay_sizeStr (parseInt (apibay_size item)) = Inr (size_label t)"
  using assms by (auto simp: apibay_item_def Let_def split: sum.splits)

lemma eztv_item_label:
  assumes "eztv_item w e = Inr t"
  shows "eztv_size (eztv_size_bytes e) = Inr (size_label t)"
  using assms by (auto simp: eztv_item_def Let_def split: sum.splits)

subsection \<open>The model on concrete responses\<close>

lemma demo_query:
  "lit ''Show S01E02'' \<noteq> []"
  "trim (lit ''Show S01E02'') = lit ''Show S01E02''"
  "encodeURIComponent (lit ''Show S01E02'') = Inr (lit ''Show%20S01E02'')"
  by code_simp+

lemma demo_eztv_try:
  "fst (eztv_try demo_world (lit ''Show S01E02'') (lit ''0903747'')) = Inr [demo_t3, demo_t2]"
  by code_simp

lemma demo_solid_try:
  "fst (solid_try demo_world (lit ''Show%20S01E02'')) = Inr [demo_t1, demo_t4]"
  by code_simp

lemma demo_apibay_try:
  "fst (apibay_try demo_world (lit ''Show%20S01E02'')) = Inl SyntaxError"
  by code_simp

lemma demo_attempts:
  "attempts demo_world (lit ''Show S01E02'') (lit ''Show%20S01E02'') TV (Some (lit ''tt0903747''))
   = [eztv_try demo_world (lit ''Show S01E02'') (lit ''0903747''),
      apibay_try demo_world (lit ''Show%20S01E02''),
      solid_try demo_world (lit ''Show%20S01E02'')]"
  by (simp add: attempts_def truthy_def cleanImdbId_def lit_def)

lemma demo_aggregate:
  "by_seeds (alive (uniqueTorrents [demo_t3, demo_t2, demo_t1, demo_t4])) = [demo_t1, demo_t2]"
  by code_simp

lemma demo_contributions:
  "concat (map contributed
     (attempts demo_world (lit ''Show S01E02'') (lit ''Show%20S01E02'') TV
        (Some (lit ''tt0903747''))))
   = [demo_t3, demo_t2, demo_t1, demo_t4]"
  by (simp add: demo_attempts contributed_def demo_eztv_try demo_solid_try demo_apibay_try)

lemma demo_unique:
  "uniqueTorrents [demo_t3, demo_t2, demo_t1, demo_t4] = [demo_t1, demo_t2, demo_t4]"
  by code_simp

lemma demo_numeric:
  "\<forall>t\<in>set (uniqueTorrents [demo_t3, demo_t2, demo_t1, demo_t4]). seeds t \<noteq> Opaque"
  unfolding demo_unique by (simp add: demo_t1_def demo_t2_def demo_t4_def)

lemma demo_tv_run:
  "fst (fetchMovieDownloads demo_world (lit ''Show S01E02'') TV (Some (lit ''tt0903747'')))
   = Inr [demo_t1, demo_t2]"
proof -
  have e: "encodeURIComponent (trim (lit ''Show S01E02'')) = Inr (lit ''Show%20S01E02'')"
    by (simp only: demo_query)
  show ?thesis
    using fetch_attempts_outcome [OF demo_query(1) e, of demo_world TV
            "Some (lit ''tt0903747'')"] demo_numeric
    by (simp add: demo_query demo_contributions demo_aggregate)
qed

lemma demo_film_query:
  "lit ''Film'' \<noteq> []" "trim (lit ''Film'') = lit ''Film''"
  "encodeURIComponent (lit ''Film'') = Inr (lit ''Film'')"
  by code_simp+

lemma demo_movie_tries:
  "fst (yts_try demo_movie_world (lit ''Film'') None) = Inr [demo_t6]"
  "fst (apibay_try demo_movie_world (lit ''Film'')) = Inr [demo_t5]"
  "fst (solid_try demo_movie_world (lit ''Film'')) = Inl TypeError"
  by code_simp+

lemma dead_tries:
  "fst (yts_try dead_world (lit ''Film'') None) = Inl NetworkError"
  "fst (apibay_try dead_world (lit ''Film'')) = Inl SyntaxError"
  "fst (solid_try dead_world (lit ''Film'')) = Inl TypeError"
  by code_simp+

lemma movie_attempts:
  "attempts w cleanQuery encodedQuery Movie None
   = [yts_try w encodedQuery None, apibay_try w encodedQuery, solid_try w encodedQuery]"
  by (simp add: attempts_def truthy_def)

lemma demo_movie_aggregate:
  "by_seeds (alive (uniqueTorrents [demo_t6, demo_t5])) = [demo_t5, demo_t6]"
  by code_simp

lemma demo_movie_unique: "uniqueTorrents [demo_t6, demo_t5] = [demo_t6, demo_t5]"
  by code_simp

lemma demo_movie_contributions:
  "concat (map contributed (attempts demo_movie_world (lit ''Film'') (lit ''Film'') Movie None))
   = [demo_t6, demo_t5]"
  by (simp add: movie_attempts contributed_def demo_movie_tries)

lemma demo_movie_run:
  "fst (fetchMovieDownloads demo_movie_world (lit ''Film'') Movie None) = Inr [demo_t5, demo_t6]"
proof -
  have e: "encodeURIComponent (trim (lit ''Film'')) = Inr (lit ''Film'')"
    by (simp only: demo_film_query)
  have n: "\<forall>t\<in>set (uniqueTorrents [demo_t6, demo_t5]). seeds t \<noteq> Opaque"
    unfolding demo_movie_unique by (simp add: demo_t5_def demo_t6_def)
  show ?thesis
    using fetch_attempts_outcome [OF demo_film_query(1) e, of demo_movie_world Movie None] n
    by (simp add: demo_film_query demo_movie_contributions demo_movie_aggregate)
qed

lemma opaque_tries:
  "fst (yts_try opaque_world (lit ''Film'') None) = Inr [demo_t7]"
  "fst (apibay_try opaque_world (lit ''Film'')) = Inr [demo_t5]"
  "fst (solid_try opaque_world (lit ''Film'')) = Inl NetworkError"
  by code_simp+

lemma opaque_contributions:
  "concat (map contributed (attempts opaque_world (lit ''Film'') (lit ''Film'') Movie None))
   = [demo_t7, demo_t5]"
  by (simp add: movie_attempts contributed_def opaque_tries)

lemma opaque_unique: "uniqueTorrents [demo_t7, demo_t5] = [demo_t7, demo_t5]"
  by code_simp

lemma opaque_seeds: "\<exists>t\<in>set (uniqueTorrents [demo_t7, demo_t5]). seeds t = Opaque"
  unfolding opaque_unique by (simp add: demo_t7_def)

lemma dead_contributions:
  "concat (map contributed (attempts dead_world (lit ''Film'') (lit ''Film'') Movie None)) = []"
  by (simp add: movie_attempts contributed_def dead_tries)

lemma surrogate_query:
  "[0xD800 :: cu] \<noteq> []" "encodeURIComponent (trim [0xD800]) = Inl URIError"
  by code_simp+






lemma snd_recover: "snd (recover p) = snd p"
  by (simp add: recover_def split: sum.splits)

lemma yts_try_requests:
  "snd (yts_try w encodedQuery imdbId)
   = (case proxied (ytsUrl encodedQuery imdbId) of Inl e \<Rightarrow> [] | Inr u \<Rightarrow> [u])"
  by (simp add: yts_try_def split: sum.splits option.splits)

lemma apibay_try_requests:
  "snd (apibay_try w encodedQuery)
   = (case proxied (lit ''https://apibay.org/q.php?q='' @ encodedQuery) of
        Inl e \<Rightarrow> [] | Inr u \<Rightarrow> [u])"
  by (simp add: apibay_try_def del: traverse.simps take_Cons_numeral
        split: sum.splits option.splits list.splits)

lemma solid_try_requests:
  "snd (solid_try w encodedQuery)
   = (case proxied (lit ''https://solidtorrents.to/api/v1/search?q='' @ encodedQuery
                      @ lit ''&category=Video'') of
        Inl e \<Rightarrow> [] | Inr u \<Rightarrow> [u])"
  by (simp add: solid_try_def del: traverse.simps take_Cons_numeral
        split: sum.splits option.splits list.splits)

lemma blank_query:
  "lit '' '' \<noteq> []" "trim (lit '' '') = []"
  by code_simp+

lemma blank_urls:
  "proxied (ytsUrl [] None) = Inr (lit ''https://corsproxy.io/?url=https%3A%2F%2Fyts.mx%2Fapi%2Fv2%2Flist_movies.json%3Fquery_term%3D%26limit%3D10'')"
  "proxied (lit ''https://apibay.org/q.php?q='' @ []) = Inr (lit ''https://corsproxy.io/?url=https%3A%2F%2Fapibay.org%2Fq.php%3Fq%3D'')"
  "proxied (lit ''https://solidtorrents.to/api/v1/search?q='' @ lit ''&category=Video'') = Inr (lit ''https://corsproxy.io/?url=https%3A%2F%2Fsolidtorrents.to%2Fapi%2Fv1%2Fsearch%3Fq%3D%26category%3DVideo'')"
  by code_simp+

lemma demo_parse_x264:
  "parseTorrentName (lit ''720p.WEBRip.x264'')
   = \<lparr> meta_quality = lit ''720P'', meta_type = lit ''WEBRIP (X264)'' \<rparr>"
  by code_simp

lemma demo_tests:
  "regex_test [lit ''x264''] (lit ''720p.WEBRip.x264'')"
  "\<not> regex_test [lit ''x265'', lit ''hevc''] (lit ''720p.WEBRip.x264'')"
  "regex_test [lit ''x265'', lit ''hevc''] (lit ''x264.HEVC'')"
  "regex_test [lit ''x264''] (lit ''x264.HEVC'')"
  by code_simp+

lemma demo_apibay_item: "apibay_item demo_a1 = Inr demo_t5"
  by code_simp

lemma demo_parseInt: "parseInt (apibay_size demo_a1) = Num 1073741824"
  by code_simp

lemma demo_eztv_item: "eztv_item demo_world demo_e1 = Inr demo_t3"
  by code_simp

section \<open>The properties of the specification\<close>

subsection \<open>C1: partial failure\<close>

text \<open>
  Claim C1, as amended. The claim says that the call resolves for every query and that
  every shape error of an adapter is caught. Two statements of the function are outside
  every \<^verbatim>\<open>try\<close> block: \<^verbatim>\<open>encodeURIComponent(cleanQuery)\<close>, which raises \<^verbatim>\<open>URIError\<close> on an
  unpaired surrogate, and the filter \<^verbatim>\<open>t.seeds > 0\<close>, which raises \<^verbatim>\<open>TypeError\<close> on a
  seeder value that an adapter copied from the response and that does not convert to a
  number. When the trimmed query can be encoded and the seeder value of every candidate
  left by the deduplication converts to a number, the claim holds: the call resolves, an
  adapter whose \<^verbatim>\<open>try\<close> block raises contributes the empty list, and the result is the
  deduplicated, filtered and sorted concatenation of what the other adapters returned,
  the empty list when every adapter fails. A query that is not empty and whose trimmed
  text cannot be encoded rejects with \<^verbatim>\<open>URIError\<close>, and a deduplicated candidate whose
  seeder value does not convert rejects with \<^verbatim>\<open>TypeError\<close>.
\<close>

theorem fetchMovieDownloads_partial_failure:
  "(encodeURIComponent (trim query) = Inr encodedQuery
      \<and> (\<forall>t\<in>set (uniqueTorrents (concat (map contributed
                   (attempts w (trim query) encodedQuery kind imdbId)))). seeds t \<noteq> Opaque)
     \<longrightarrow> fst (fetchMovieDownloads w query kind imdbId)
           = Inr (if query = [] then []
                  else by_seeds (alive (uniqueTorrents (concat (map contributed
                         (attempts w (trim query) encodedQuery kind imdbId))))))
         \<and> ((\<forall>p\<in>set (attempts w (trim query) encodedQuery kind imdbId). \<exists>e. fst p = Inl e)
              \<longrightarrow> fst (fetchMovieDownloads w query kind imdbId) = Inr []))
   \<and> (query \<noteq> [] \<and> encodeURIComponent (trim query) = Inl e
     \<longrightarrow> fst (fetchMovieDownloads w query kind imdbId) = Inl URIError)
   \<and> (query \<noteq> [] \<and> encodeURIComponent (trim query) = Inr encodedQuery
      \<and> (\<exists>t\<in>set (uniqueTorrents (concat (map contributed
                   (attempts w (trim query) encodedQuery kind imdbId)))). seeds t = Opaque)
     \<longrightarrow> fst (fetchMovieDownloads w query kind imdbId) = Inl TypeError)"
proof -
  let ?all = "concat (map contributed (attempts w (trim query) encodedQuery kind imdbId))"
  have resolves: "fst (fetchMovieDownloads w query kind imdbId)
           = Inr (if query = [] then [] else by_seeds (alive (uniqueTorrents ?all)))"
    if enc: "encodeURIComponent (trim query) = Inr encodedQuery"
      and num: "\<forall>t\<in>set (uniqueTorrents ?all). seeds t \<noteq> Opaque"
  proof (cases "query = []")
    case True
    then show ?thesis by (simp add: fetchMovieDownloads_def)
  next
    case False
    show ?thesis using fetch_attempts_outcome [OF False enc] num False by simp
  qed
  have empty: "fst (fetchMovieDownloads w query kind imdbId) = Inr []"
    if enc: "encodeURIComponent (trim query) = Inr encodedQuery"
      and num: "\<forall>t\<in>set (uniqueTorrents ?all). seeds t \<noteq> Opaque"
      and failed: "\<forall>p\<in>set (attempts w (trim query) encodedQuery kind imdbId). \<exists>e. fst p = Inl e"
    using resolves [OF enc num] aggregate_Nil
    unfolding concat_contributed_failed [OF failed] by simp
  have uri: "fst (fetchMovieDownloads w query kind imdbId) = Inl URIError"
    if "query \<noteq> []" and "encodeURIComponent (trim query) = Inl e"
    using that encodeURIComponent_error [OF that(2)] by (simp add: fetch_outcome)
  have ty: "fst (fetchMovieDownloads w query kind imdbId) = Inl TypeError"
    if ne: "query \<noteq> []" and enc: "encodeURIComponent (trim query) = Inr encodedQuery"
      and op: "\<exists>t\<in>set (uniqueTorrents ?all). seeds t = Opaque"
    using fetch_attempts_outcome [OF ne enc] op by simp
  show ?thesis using resolves empty uri ty by blast
qed

text \<open>
  The amended claim C1 at a television query for which the first general search fails and
  two adapters answer, at a movie query for which all three adapters fail, at the query
  that is one unpaired high surrogate, and at a movie query whose catalogue entry has a
  seeder value that does not convert.
\<close>

theorem fetchMovieDownloads_partial_failure_witness:
  "encodeURIComponent (trim (lit ''Show S01E02'')) = Inr (lit ''Show%20S01E02'')
   \<and> fst (fetchMovieDownloads demo_world (lit ''Show S01E02'') TV (Some (lit ''tt0903747'')))
       = Inr [demo_t1, demo_t2]
   \<and> encodeURIComponent (trim (lit ''Film'')) = Inr (lit ''Film'')
   \<and> fst (fetchMovieDownloads dead_world (lit ''Film'') Movie None) = Inr []
   \<and> [0xD800 :: cu] \<noteq> [] \<and> encodeURIComponent (trim [0xD800]) = Inl URIError
   \<and> fst (fetchMovieDownloads demo_world [0xD800] Movie None) = Inl URIError
   \<and> lit ''Film'' \<noteq> []
   \<and> fst (fetchMovieDownloads opaque_world (lit ''Film'') Movie None) = Inl TypeError"
proof -
  have e1: "encodeURIComponent (trim (lit ''Show S01E02'')) = Inr (lit ''Show%20S01E02'')"
    by (simp only: demo_query)
  have e2: "encodeURIComponent (trim (lit ''Film'')) = Inr (lit ''Film'')"
    by (simp only: demo_film_query)
  have n1: "\<forall>t\<in>set (uniqueTorrents (concat (map contributed
               (attempts demo_world (trim (lit ''Show S01E02'')) (lit ''Show%20S01E02'') TV
                  (Some (lit ''tt0903747'')))))). seeds t \<noteq> Opaque"
    unfolding demo_query demo_contributions by (rule demo_numeric)
  have r1: "fst (fetchMovieDownloads demo_world (lit ''Show S01E02'') TV
                   (Some (lit ''tt0903747''))) = Inr [demo_t1, demo_t2]"
    using fetchMovieDownloads_partial_failure [of "lit ''Show S01E02''" "lit ''Show%20S01E02''"
            demo_world TV "Some (lit ''tt0903747'')"] e1 n1
    by (simp add: demo_query demo_contributions demo_aggregate)
  have n2: "\<forall>t\<in>set (uniqueTorrents (concat (map contributed
               (attempts dead_world (trim (lit ''Film'')) (lit ''Film'') Movie None)))).
               seeds t \<noteq> Opaque"
    unfolding demo_film_query dead_contributions
    by (simp add: uniqueTorrents_def new_Map_def Map_values_def)
  have f2: "\<forall>p\<in>set (attempts dead_world (trim (lit ''Film'')) (lit ''Film'') Movie None).
              \<exists>e. fst p = Inl e"
    by (simp add: demo_film_query movie_attempts dead_tries)
  have r2: "fst (fetchMovieDownloads dead_world (lit ''Film'') Movie None) = Inr []"
    using fetchMovieDownloads_partial_failure [of "lit ''Film''" "lit ''Film''" dead_world
            Movie None] e2 n2 f2
    by blast
  have r3: "fst (fetchMovieDownloads demo_world [0xD800] Movie None) = Inl URIError"
    using fetchMovieDownloads_partial_failure [of "[0xD800]" _ demo_world Movie None URIError]
      surrogate_query
    by blast
  have o: "\<exists>t\<in>set (uniqueTorrents (concat (map contributed
               (attempts opaque_world (trim (lit ''Film'')) (lit ''Film'') Movie None)))).
               seeds t = Opaque"
    unfolding demo_film_query opaque_contributions by (rule opaque_seeds)
  have r4: "fst (fetchMovieDownloads opaque_world (lit ''Film'') Movie None) = Inl TypeError"
    using fetchMovieDownloads_partial_failure [of "lit ''Film''" "lit ''Film''" opaque_world
            Movie None] e2 o demo_film_query(1)
    by blast
  show ?thesis using e1 r1 e2 r2 surrogate_query r3 demo_film_query(1) r4 by blast
qed

text \<open>
  Claim C1 as stated fails at the query that is one unpaired high surrogate, where the
  promise is rejected with \<^verbatim>\<open>URIError\<close>, and at an encodable query in \<open>opaque_world\<close>, where
  the shape error of the catalogue response is not caught and the promise is rejected
  with \<^verbatim>\<open>TypeError\<close>.
\<close>

theorem fetchMovieDownloads_rejects_counterexample:
  "fst (fetchMovieDownloads demo_world [0xD800] Movie None) = Inl URIError
   \<and> encodeURIComponent (trim (lit ''Film'')) = Inr (lit ''Film'')
   \<and> fst (fetchMovieDownloads opaque_world (lit ''Film'') Movie None) = Inl TypeError"
proof -
  have "fst (fetchMovieDownloads demo_world [0xD800] Movie None) = Inl URIError"
    by code_simp
  moreover have "fst (fetchMovieDownloads opaque_world (lit ''Film'') Movie None) = Inl TypeError"
    by code_simp
  ultimately show ?thesis by (simp add: demo_film_query)
qed

subsection \<open>C2: only live candidates\<close>

text \<open>
  Claim C2. Every candidate of a list that \<^verbatim>\<open>fetchMovieDownloads\<close> returns has a seeder
  count that is a number strictly greater than zero, whatever the adapters returned.
\<close>

theorem fetchMovieDownloads_seeds_positive:
  assumes "fst (fetchMovieDownloads w query kind imdbId) = Inr out" and "t \<in> set out"
  shows "\<exists>n. seeds t = Num n \<and> 0 < n"
proof -
  have "t \<in> set (alive (uniqueTorrents (allTorrents_of w query kind imdbId)))"
    using assms fetch_result [OF assms(1)] by (simp add: set_by_seeds)
  then show ?thesis by (rule alive_seeds)
qed

text \<open>
  Claim C2 at the television query of \<open>demo_world\<close>, whose second general search also
  returns a candidate without seeders.
\<close>

theorem fetchMovieDownloads_seeds_positive_witness:
  "fst (fetchMovieDownloads demo_world (lit ''Show S01E02'') TV (Some (lit ''tt0903747'')))
     = Inr [demo_t1, demo_t2]
   \<and> demo_t2 \<in> set [demo_t1, demo_t2]
   \<and> (\<exists>n. seeds demo_t2 = Num n \<and> 0 < n)"
  using fetchMovieDownloads_seeds_positive [OF demo_tv_run, of demo_t2] demo_tv_run by simp

subsection \<open>C3: descending and stable order\<close>

text \<open>
  Claim C3. In the returned list the seeder counts descend: a candidate at a later position
  never has more seeders than one before it. Candidates with the same seeder count keep
  the order they have after the filter.
\<close>

theorem fetchMovieDownloads_sorted_stable:
  assumes "fst (fetchMovieDownloads w query kind imdbId) = Inr out"
  shows "(\<forall>i j. i < j \<longrightarrow> j < length out \<longrightarrow>
            (\<exists>a b. seeds (out ! i) = Num a \<and> seeds (out ! j) = Num b \<and> b \<le> a))
         \<and> (\<forall>n. filter (\<lambda>t. seeds t = n) out
                 = filter (\<lambda>t. seeds t = n)
                     (alive (uniqueTorrents (allTorrents_of w query kind imdbId))))"
proof -
  let ?pf = "alive (uniqueTorrents (allTorrents_of w query kind imdbId))"
  have out: "out = by_seeds ?pf" by (rule fetch_result [OF assms])
  have sorted: "sorted (map (\<lambda>t. - seed_val t) out)"
    unfolding out by (rule by_seeds_alive_sorted)
  have desc: "\<exists>a b. seeds (out ! i) = Num a \<and> seeds (out ! j) = Num b \<and> b \<le> a"
    if "i < j" "j < length out" for i j
  proof -
    have "out ! i \<in> set ?pf" "out ! j \<in> set ?pf"
      using that out set_by_seeds [of ?pf] nth_mem [of i out] nth_mem [of j out] by auto
    then obtain a b where a: "seeds (out ! i) = Num a" and b: "seeds (out ! j) = Num b"
      using alive_seeds by blast
    have "map (\<lambda>t. - seed_val t) out ! i \<le> map (\<lambda>t. - seed_val t) out ! j"
      using sorted that by (simp add: sorted_iff_nth_mono)
    then have "b \<le> a" using that a b by (simp add: seed_val_def sortCompare_def)
    with a b show ?thesis by blast
  qed
  show ?thesis using desc by_seeds_alive_stable [of _ "uniqueTorrents (allTorrents_of w query kind imdbId)"] out
    by blast
qed

text \<open>
  Claim C3 at the two candidates returned for the television query of \<open>demo_world\<close>.
\<close>

theorem fetchMovieDownloads_sorted_stable_witness:
  "fst (fetchMovieDownloads demo_world (lit ''Show S01E02'') TV (Some (lit ''tt0903747'')))
     = Inr [demo_t1, demo_t2]
   \<and> (0::nat) < 1 \<and> 1 < length [demo_t1, demo_t2]
   \<and> (\<exists>a b. seeds ([demo_t1, demo_t2] ! 0) = Num a \<and> seeds ([demo_t1, demo_t2] ! 1) = Num b
          \<and> b \<le> a)"
proof -
  have "\<forall>i j. i < j \<longrightarrow> j < length [demo_t1, demo_t2] \<longrightarrow>
          (\<exists>a b. seeds ([demo_t1, demo_t2] ! i) = Num a \<and> seeds ([demo_t1, demo_t2] ! j) = Num b
             \<and> b \<le> a)"
    using fetchMovieDownloads_sorted_stable [OF demo_tv_run] by blast
  then have "(0::nat) < 1 \<longrightarrow> 1 < length [demo_t1, demo_t2] \<longrightarrow>
          (\<exists>a b. seeds ([demo_t1, demo_t2] ! 0) = Num a \<and> seeds ([demo_t1, demo_t2] ! 1) = Num b
             \<and> b \<le> a)"
    by blast
  then show ?thesis using demo_tv_run by simp
qed

subsection \<open>C4: deduplication by hash\<close>

text \<open>
  Claim C4. The deduplication of a list with \<open>k\<close> distinct hash values keeps exactly \<open>k\<close>
  entries, one for each hash of the list, and the hashes of every returned list are
  pairwise distinct.
\<close>

theorem uniqueTorrents_exact:
  "length (uniqueTorrents allTorrents) = card (hash ` set allTorrents)
   \<and> distinct (map hash (uniqueTorrents allTorrents))
   \<and> hash ` set (uniqueTorrents allTorrents) = hash ` set allTorrents
   \<and> (fst (fetchMovieDownloads w query kind imdbId) = Inr out \<longrightarrow> distinct (map hash out))"
proof -
  have "length (uniqueTorrents allTorrents) = card (set (map hash (uniqueTorrents allTorrents)))"
    using distinct_card [OF uniqueTorrents_distinct [of allTorrents]] by simp
  then have len: "length (uniqueTorrents allTorrents) = card (hash ` set allTorrents)"
    using uniqueTorrents_hash_set [of allTorrents] by simp
  have "distinct (map hash out)" if "fst (fetchMovieDownloads w query kind imdbId) = Inr out"
    unfolding fetch_result [OF that]
    by (rule distinct_hash_by_seeds_alive) (rule uniqueTorrents_distinct)
  with len uniqueTorrents_distinct uniqueTorrents_hash_set show ?thesis by blast
qed

text \<open>
  Claim C4 at the television query of \<open>demo_world\<close>, where two adapters return a candidate
  with the same hash.
\<close>

theorem uniqueTorrents_exact_witness:
  "fst (fetchMovieDownloads demo_world (lit ''Show S01E02'') TV (Some (lit ''tt0903747'')))
     = Inr [demo_t1, demo_t2]
   \<and> distinct (map hash [demo_t1, demo_t2])
   \<and> length (uniqueTorrents [demo_t3, demo_t2, demo_t1, demo_t4])
       = card (hash ` set [demo_t3, demo_t2, demo_t1, demo_t4])"
  using uniqueTorrents_exact [of "[demo_t3, demo_t2, demo_t1, demo_t4]" demo_world
          "lit ''Show S01E02''" TV "Some (lit ''tt0903747'')" "[demo_t1, demo_t2]"]
        demo_tv_run
  by blast

subsection \<open>C5: season and episode filter\<close>



subsection \<open>C6: blank query\<close>

text \<open>
  Claim C6 at its failing input. For the empty query the call returns the empty list and
  requests nothing. For the query that is one space the guard \<^verbatim>\<open>if (!query)\<close> does not
  apply, the query is trimmed to the empty text afterwards, and the three adapters of a
  movie request are started with an empty search term: three addresses are requested.
\<close>

theorem fetchMovieDownloads_blank_query_requests:
  "fetchMovieDownloads w [] kind imdbId = (Inr [], [])
   \<and> snd (fetchMovieDownloads w (lit '' '') Movie None)
       = [lit ''https://corsproxy.io/?url=https%3A%2F%2Fyts.mx%2Fapi%2Fv2%2Flist_movies.json%3Fquery_term%3D%26limit%3D10'',
          lit ''https://corsproxy.io/?url=https%3A%2F%2Fapibay.org%2Fq.php%3Fq%3D'',
          lit ''https://corsproxy.io/?url=https%3A%2F%2Fsolidtorrents.to%2Fapi%2Fv1%2Fsearch%3Fq%3D%26category%3DVideo'']"
proof -
  have "promises w [] [] Movie None
        = [recover (yts_try w [] None), recover (apibay_try w []), recover (solid_try w [])]"
    by (simp add: promises_def truthy_def)
  then have "snd (fetchMovieDownloads w (lit '' '') Movie None)
       = snd (yts_try w [] None) @ snd (apibay_try w []) @ snd (solid_try w [])"
    by (simp add: fetchMovieDownloads_def blank_query Let_def snd_recover aggregate_outcome)
  then show ?thesis
    by (simp only: yts_try_requests apibay_try_requests solid_try_requests blank_urls
          fetchMovieDownloads_def sum.case append_Cons append_Nil if_True simp_thms)
qed

subsection \<open>C7: codec suffix\<close>

text \<open>
  Claim C7, as amended. The claim says that the suffix of a name matching \<^verbatim>\<open>x264\<close> is
  written with a lower-case x. The source upper-cases the type after the suffix has been
  appended, so for a name that matches \<^verbatim>\<open>x264\<close> and neither \<^verbatim>\<open>x265\<close> nor \<^verbatim>\<open>hevc\<close> the
  encoding tag ends with \<^verbatim>\<open> (X264)\<close>; for a name that matches \<^verbatim>\<open>x265\<close> or \<^verbatim>\<open>hevc\<close> it ends
  with \<^verbatim>\<open> (HEVC)\<close>, whether \<^verbatim>\<open>x264\<close> matches or not; and no lower-case ASCII letter is left
  anywhere in the tag.
\<close>

theorem parseTorrentName_codec_suffix:
  "(regex_test [lit ''x265'', lit ''hevc''] name
      \<longrightarrow> suffix (lit '' (HEVC)'') (meta_type (parseTorrentName name)))
   \<and> (\<not> regex_test [lit ''x265'', lit ''hevc''] name \<and> regex_test [lit ''x264''] name
      \<longrightarrow> suffix (lit '' (X264)'') (meta_type (parseTorrentName name)))
   \<and> (\<forall>c\<in>set (meta_type (parseTorrentName name)). \<not> (0x61 \<le> c \<and> c \<le> 0x7A))"
proof -
  from parseTorrentName_type [of name] obtain base where
    t: "meta_type (parseTorrentName name)
     = toUpperCase base
       @ (if regex_test [lit ''x265'', lit ''hevc''] name then lit '' (HEVC)''
          else if regex_test [lit ''x264''] name then lit '' (X264)'' else [])" by blast
  have low: "\<forall>c\<in>set (meta_type (parseTorrentName name)). \<not> (0x61 \<le> c \<and> c \<le> 0x7A)"
    using toUpperCase_no_lower by (simp add: parseTorrentName_def Let_def del: match_alt.simps)
  show ?thesis using t low by (simp add: suffix_def)
qed

text \<open>
  The amended claim C7 at a name with \<^verbatim>\<open>x264\<close> only and at a name with both codecs.
\<close>

theorem parseTorrentName_codec_suffix_witness:
  "regex_test [lit ''x264''] (lit ''720p.WEBRip.x264'')
   \<and> \<not> regex_test [lit ''x265'', lit ''hevc''] (lit ''720p.WEBRip.x264'')
   \<and> suffix (lit '' (X264)'') (meta_type (parseTorrentName (lit ''720p.WEBRip.x264'')))
   \<and> regex_test [lit ''x265'', lit ''hevc''] (lit ''x264.HEVC'')
   \<and> regex_test [lit ''x264''] (lit ''x264.HEVC'')
   \<and> suffix (lit '' (HEVC)'') (meta_type (parseTorrentName (lit ''x264.HEVC'')))
   \<and> 0x58 \<in> set (meta_type (parseTorrentName (lit ''720p.WEBRip.x264'')))
   \<and> \<not> (0x61 \<le> (0x58 :: cu) \<and> (0x58 :: cu) \<le> 0x7A)"
proof -
  have m: "0x58 \<in> set (meta_type (parseTorrentName (lit ''720p.WEBRip.x264'')))"
    unfolding demo_parse_x264 by (simp add: lit_def)
  show ?thesis
    using parseTorrentName_codec_suffix [of "lit ''720p.WEBRip.x264''"]
      parseTorrentName_codec_suffix [of "lit ''x264.HEVC''"] demo_tests m
    by blast
qed

text \<open>
  Claim C7 as stated fails at the name \<^verbatim>\<open>720p.WEBRip.x264\<close>: the tag is
  \<^verbatim>\<open>WEBRIP (X264)\<close>, which does not end with the lower-case suffix.
\<close>

theorem parseTorrentName_x264_suffix_counterexample:
  "regex_test [lit ''x264''] (lit ''720p.WEBRip.x264'')
   \<and> \<not> regex_test [lit ''x265'', lit ''hevc''] (lit ''720p.WEBRip.x264'')
   \<and> meta_type (parseTorrentName (lit ''720p.WEBRip.x264'')) = lit ''WEBRIP (X264)''
   \<and> \<not> suffix (lit '' (x264)'') (meta_type (parseTorrentName (lit ''720p.WEBRip.x264'')))"
proof -
  have "\<not> suffix (lit '' (x264)'') (lit ''WEBRIP (X264)'')" by code_simp
  then show ?thesis by (simp add: demo_parse_x264 demo_tests)
qed

subsection \<open>C8: size label of the first general search\<close>

text \<open>
  Claim C8, as amended. The claim puts the threshold at a byte count greater than or equal
  to 1073741824. The source compares with \<^verbatim>\<open>>\<close>: a byte count from zero to below
  \<open>2 ^ 53\<close> is written in GB with two decimals exactly when it is strictly greater than
  1073741824, and in MB with two decimals otherwise; this text is the label of the
  candidate emitted for an entry whose size \<^verbatim>\<open>parseInt\<close> reads as that byte count.
\<close>

theorem apibay_size_threshold:
  assumes "0 \<le> b" and "b < 9007199254740992"
  shows "\<exists>label. apibay_sizeStr (Num b) = Inr label
       \<and> label = (if 1073741824 < b then two_decimals b 1073741824 @ lit '' GB''
                  else two_decimals b 1048576 @ lit '' MB'')
       \<and> (suffix (lit '' GB'') label \<longleftrightarrow> 1073741824 < b)
       \<and> (\<forall>item t. parseInt (apibay_size item) = Num b \<and> apibay_item item = Inr t
             \<longrightarrow> size_label t = label)"
proof -
  let ?label = "if 1073741824 < b then two_decimals b 1073741824 @ lit '' GB''
                else two_decimals b 1048576 @ lit '' MB''"
  have eq: "apibay_sizeStr (Num b) = Inr ?label"
    using assms(1) by (simp add: apibay_sizeStr_def followed_by_def div_toFixed_two)
  have sfx: "suffix (lit '' GB'') ?label \<longleftrightarrow> 1073741824 < b"
    by (simp add: suffix_same_length lit_def)
  have item: "size_label t = ?label"
    if "parseInt (apibay_size item) = Num b" and "apibay_item item = Inr t" for item t
    using apibay_item_label [OF that(2)] eq unfolding that(1) by simp
  show ?thesis using eq sfx item by blast
qed

text \<open>
  The amended claim C8 at the byte counts 1073741824, the size of the entry of
  \<open>demo_movie_world\<close>, and 1073741825.
\<close>

theorem apibay_size_threshold_witness:
  "(0::int) \<le> 1073741824 \<and> (1073741824::int) < 9007199254740992
   \<and> apibay_sizeStr (Num 1073741824) = Inr (two_decimals 1073741824 1048576 @ lit '' MB'')
   \<and> \<not> suffix (lit '' GB'') (two_decimals 1073741824 1048576 @ lit '' MB'')
   \<and> parseInt (apibay_size demo_a1) = Num 1073741824
   \<and> apibay_item demo_a1 = Inr demo_t5
   \<and> size_label demo_t5 = two_decimals 1073741824 1048576 @ lit '' MB''
   \<and> (0::int) \<le> 1073741825 \<and> (1073741825::int) < 9007199254740992
   \<and> apibay_sizeStr (Num 1073741825) = Inr (two_decimals 1073741825 1073741824 @ lit '' GB'')
   \<and> suffix (lit '' GB'') (two_decimals 1073741825 1073741824 @ lit '' GB'')"
proof -
  have h: "(0::int) \<le> 1073741824" "(0::int) \<le> 1073741825" by simp_all
  have u: "(1073741824::int) < 9007199254740992" "(1073741825::int) < 9007199254740992"
    by simp_all
  have c: "\<not> (1073741824::int) < 1073741824" "(1073741824::int) < 1073741825" by simp_all
  note at = apibay_size_threshold [OF h(1) u(1), unfolded if_not_P [OF c(1)]]
  note above = apibay_size_threshold [OF h(2) u(2), unfolded if_P [OF c(2)]]
  from at obtain l1 where l1: "apibay_sizeStr (Num 1073741824) = Inr l1"
    "l1 = two_decimals 1073741824 1048576 @ lit '' MB''"
    "suffix (lit '' GB'') l1 \<longleftrightarrow> (1073741824::int) < 1073741824"
    "\<forall>item t. parseInt (apibay_size item) = Num 1073741824 \<and> apibay_item item = Inr t
         \<longrightarrow> size_label t = l1"
    by blast
  from above obtain l2 where l2: "apibay_sizeStr (Num 1073741825) = Inr l2"
    "l2 = two_decimals 1073741825 1073741824 @ lit '' GB''"
    "suffix (lit '' GB'') l2 \<longleftrightarrow> (1073741824::int) < 1073741825"
    by blast
  have s: "size_label demo_t5 = l1" using l1(4) demo_parseInt demo_apibay_item by blast
  show ?thesis
    using h u l1(1,3) l2(1,3) s c demo_parseInt demo_apibay_item unfolding l1(2) l2(2)
    by blast
qed

text \<open>
  Claim C8 as stated fails at the byte count 1073741824: the label is in MB.
\<close>

theorem apibay_size_one_GiB_counterexample:
  "apibay_sizeStr (Num 1073741824) = Inr (lit ''1024.00 MB'')
   \<and> \<not> suffix (lit '' GB'') (lit ''1024.00 MB'')"
  by code_simp

subsection \<open>C9: size label of the episode adapter\<close>

text \<open>
  Claim C9, as amended. The claim gives the label one decimal place. The source calls
  \<^verbatim>\<open>toFixed(0)\<close>: for a byte count from zero to below \<open>2 ^ 53\<close> the label is the number of
  megabytes rounded to the nearest integer, halves upwards, written with digits only and
  followed by \<^verbatim>\<open> MB\<close>; it contains no decimal point, and it is the label of the
  candidate emitted for an entry with that byte count.
\<close>

theorem eztv_size_rounded:
  assumes "0 \<le> b" and "b < 9007199254740992"
  shows "eztv_size (Num b) = Inr (decimal ((b + 524288) div 1048576) @ lit '' MB'')
       \<and> (\<forall>c\<in>set (decimal ((b + 524288) div 1048576)). is_digit c)
       \<and> 0x2E \<notin> set (decimal ((b + 524288) div 1048576) @ lit '' MB'')
       \<and> (\<forall>w e t. eztv_size_bytes e = Num b \<and> eztv_item w e = Inr t
             \<longrightarrow> size_label t = decimal ((b + 524288) div 1048576) @ lit '' MB'')"
proof -
  have r: "(2 * b + 1048576) div 2097152 = (b + 524288) div 1048576"
    by (simp add: zdiv_zmult2_eq [symmetric] flip: distrib_left) presburger?
  have eq: "eztv_size (Num b) = Inr (decimal ((b + 524288) div 1048576) @ lit '' MB'')"
    using assms(1)
    by (simp add: eztv_size_def followed_by_def div_toFixed_def fixed_digits_def Let_def r)
  have n0: "0 \<le> (b + 524288) div 1048576"
    using assms(1) by (simp add: pos_imp_zdiv_nonneg_iff)
  have dg: "\<forall>c\<in>set (decimal ((b + 524288) div 1048576)). is_digit c"
    using decimal_digits [OF n0] by blast
  have pt: "0x2E \<notin> set (decimal ((b + 524288) div 1048576) @ lit '' MB'')"
    using dg by (auto simp: lit_def is_digit_def)
  have item: "size_label t = decimal ((b + 524288) div 1048576) @ lit '' MB''"
    if "eztv_size_bytes e = Num b" and "eztv_item w e = Inr t" for w e t
    using eztv_item_label [OF that(2)] eq unfolding that(1) by simp
  show ?thesis using eq dg pt item by blast
qed

text \<open>
  The amended claim C9 at one and a half megabytes, the size of an entry of \<open>demo_world\<close>.
\<close>

theorem eztv_size_rounded_witness:
  "(0::int) \<le> 1572864 \<and> (1572864::int) < 9007199254740992
   \<and> eztv_size (Num 1572864) = Inr (decimal 2 @ lit '' MB'')
   \<and> 0x32 \<in> set (decimal 2) \<and> is_digit 0x32
   \<and> 0x2E \<notin> set (decimal 2 @ lit '' MB'')
   \<and> eztv_size_bytes demo_e1 = Num 1572864 \<and> eztv_item demo_world demo_e1 = Inr demo_t3
   \<and> size_label demo_t3 = decimal 2 @ lit '' MB''"
proof -
  have h: "(0::int) \<le> 1572864" "(1572864::int) < 9007199254740992" by simp_all
  have d: "0x32 \<in> set (decimal 2)" by (simp add: decimal_small)
  have r: "(1572864 + 524288) div 1048576 = (2::int)" by simp
  have b: "eztv_size_bytes demo_e1 = Num 1572864" by (simp add: demo_e1_def)
  note inst = eztv_size_rounded [OF h, unfolded r]
  have "is_digit 0x32" using inst d by blast
  moreover have "size_label demo_t3 = decimal 2 @ lit '' MB''"
    using inst b demo_eztv_item by blast
  ultimately show ?thesis using inst h d b demo_eztv_item by blast
qed

text \<open>
  Claim C9 as stated fails at 1572864 bytes, one and a half megabytes: the label is
  \<^verbatim>\<open>2 MB\<close>.
\<close>

theorem eztv_size_one_decimal_counterexample:
  "eztv_size (Num 1572864) = Inr (lit ''2 MB'') \<and> lit ''2 MB'' \<noteq> lit ''1.5 MB''"
  by code_simp

subsection \<open>C10: no UNKNOWN from the title parser\<close>

text \<open>
  Claim C10. No candidate emitted by the two general searches or by the episode adapter
  has the quality \<^verbatim>\<open>UNKNOWN\<close>: all three replace it by \<^verbatim>\<open>HD\<close>. A candidate of a returned
  list that has the quality \<^verbatim>\<open>UNKNOWN\<close> therefore comes from the movie catalogue, which
  does not use the title parser, in a movie request.
\<close>

theorem parsed_quality_never_UNKNOWN:
  "(fst (apibay_try w encodedQuery) = Inr ts \<longrightarrow> (\<forall>t\<in>set ts. quality t \<noteq> lit ''UNKNOWN''))
   \<and> (fst (solid_try w encodedQuery) = Inr ts \<longrightarrow> (\<forall>t\<in>set ts. quality t \<noteq> lit ''UNKNOWN''))
   \<and> (fst (eztv_try w cleanQuery numericId) = Inr ts
        \<longrightarrow> (\<forall>t\<in>set ts. quality t \<noteq> lit ''UNKNOWN''))
   \<and> (fst (fetchMovieDownloads w query kind imdbId) = Inr out
        \<longrightarrow> (\<forall>t\<in>set out. quality t = lit ''UNKNOWN''
               \<longrightarrow> kind = Movie \<and> (\<exists>enc. t \<in> set (contributed (yts_try w enc imdbId)))))"
proof -
  have agg: "kind = Movie \<and> (\<exists>enc. t \<in> set (contributed (yts_try w enc imdbId)))"
    if r: "fst (fetchMovieDownloads w query kind imdbId) = Inr out" and t: "t \<in> set out"
      and q: "quality t = lit ''UNKNOWN''" for t
  proof -
    from fetch_members [OF r t] obtain enc p
      where p: "p \<in> set (attempts w (trim query) enc kind imdbId)" and tp: "t \<in> set (contributed p)"
      by blast
    from contributed_mem [OF tp] obtain l where l: "fst p = Inr l" "t \<in> set l" by blast
    have n1: "p \<noteq> apibay_try w enc" using l q apibay_try_quality by blast
    have n2: "p \<noteq> solid_try w enc" using l q solid_try_quality by blast
    have n3: "p \<noteq> eztv_try w (trim query) n" for n using l q eztv_try_quality by blast
    have "kind = Movie \<and> p = yts_try w enc imdbId"
      using attempts_cases [OF p] n1 n2 n3 by blast
    then show ?thesis using tp by blast
  qed
  have a: "fst (apibay_try w encodedQuery) = Inr ts
             \<longrightarrow> (\<forall>t\<in>set ts. quality t \<noteq> lit ''UNKNOWN'')"
    using apibay_try_quality by blast
  have s: "fst (solid_try w encodedQuery) = Inr ts
             \<longrightarrow> (\<forall>t\<in>set ts. quality t \<noteq> lit ''UNKNOWN'')"
    using solid_try_quality by blast
  have e: "fst (eztv_try w cleanQuery numericId) = Inr ts
             \<longrightarrow> (\<forall>t\<in>set ts. quality t \<noteq> lit ''UNKNOWN'')"
    using eztv_try_quality by blast
  have g: "fst (fetchMovieDownloads w query kind imdbId) = Inr out
        \<longrightarrow> (\<forall>t\<in>set out. quality t = lit ''UNKNOWN''
               \<longrightarrow> kind = Movie \<and> (\<exists>enc. t \<in> set (contributed (yts_try w enc imdbId))))"
    using agg by blast
  show ?thesis using a s e g by blast
qed

text \<open>
  Claim C10 at candidates emitted by the three adapters and at a movie request whose
  catalogue entry carries the quality \<^verbatim>\<open>UNKNOWN\<close> itself.
\<close>

theorem parsed_quality_never_UNKNOWN_witness:
  "fst (apibay_try demo_movie_world (lit ''Film'')) = Inr [demo_t5]
   \<and> demo_t5 \<in> set [demo_t5] \<and> quality demo_t5 \<noteq> lit ''UNKNOWN''
   \<and> fst (solid_try demo_world (lit ''Show%20S01E02'')) = Inr [demo_t1, demo_t4]
   \<and> demo_t4 \<in> set [demo_t1, demo_t4] \<and> quality demo_t4 \<noteq> lit ''UNKNOWN''
   \<and> fst (eztv_try demo_world (lit ''Show S01E02'') (lit ''0903747'')) = Inr [demo_t3, demo_t2]
   \<and> demo_t3 \<in> set [demo_t3, demo_t2] \<and> quality demo_t3 \<noteq> lit ''UNKNOWN''
   \<and> fst (fetchMovieDownloads demo_movie_world (lit ''Film'') Movie None) = Inr [demo_t5, demo_t6]
   \<and> demo_t6 \<in> set [demo_t5, demo_t6] \<and> quality demo_t6 = lit ''UNKNOWN''
   \<and> (\<exists>enc. demo_t6 \<in> set (contributed (yts_try demo_movie_world enc None)))"
proof -
  have q: "quality demo_t6 = lit ''UNKNOWN''" by (simp add: demo_t6_def)
  have a: "quality demo_t5 \<noteq> lit ''UNKNOWN''"
    using parsed_quality_never_UNKNOWN [of demo_movie_world "lit ''Film''" "[demo_t5]"]
      demo_movie_tries(2) by simp
  have s: "quality demo_t4 \<noteq> lit ''UNKNOWN''"
    using parsed_quality_never_UNKNOWN [of demo_world "lit ''Show%20S01E02''" "[demo_t1, demo_t4]"]
      demo_solid_try by simp
  have e: "quality demo_t3 \<noteq> lit ''UNKNOWN''"
    using parsed_quality_never_UNKNOWN [of demo_world _ "[demo_t3, demo_t2]"
        "lit ''Show S01E02''" "lit ''0903747''"]
      demo_eztv_try by simp
  have y: "\<exists>enc. demo_t6 \<in> set (contributed (yts_try demo_movie_world enc None))"
    using parsed_quality_never_UNKNOWN [of demo_movie_world _ _ _ _ "lit ''Film''" Movie None
        "[demo_t5, demo_t6]"]
      demo_movie_run q by simp
  show ?thesis using q a s e y demo_movie_tries(2) demo_solid_try demo_eztv_try demo_movie_run
    by simp
qed

end
